theory Spec2Isabelle
  imports Complex_Main "HOL-Library.Log_Nat"
begin

section \<open>Unicorn Ranch: the simulation engine of src/gameLogic.js\<close>

text \<open>
  The module is a set of pure functions over plain JavaScript objects. The embedding
  follows it function by function and keeps its names.

  \<^item> A JavaScript number is modelled as a \<^typ>\<open>real\<close>. The functions are embedded twice.
    In the first embedding arithmetic is exact; it carries the properties that do not
    depend on rounding: ranges, frames, comparisons and the state transitions. In the
    second embedding, whose names end in \<open>_f64\<close>, every addition, subtraction and
    multiplication is rounded to the nearest binary64 value as IEEE-754 prescribes; it
    carries the properties that compare computed numbers with each other. The infinities
    and NaN are outside both. Where the source would produce NaN by reading a missing
    property (\<^verbatim>\<open>BASE_DRAIN[needType]\<close> for an unknown name), the model returns \<open>None\<close>.
  \<^item> The objects with a fixed shape (needs, monster, game state) are records; the
    object spread \<^verbatim>\<open>{...obj, k: v}\<close> is a record update.
  \<^item> A zone is \<^verbatim>\<open>string|null\<close> in the source, so it is a \<^typ>\<open>string option\<close>
    here; \<^verbatim>\<open>status\<close> likewise.
  \<^item> The lookup tables keyed by string are association lists read with \<^const>\<open>map_of\<close>.
\<close>

subsection \<open>Data\<close>

record NeedsVector =
  hunger :: real
  thirst :: real
  energy :: real
  "fun" :: real

record MonsterState =
  x :: real
  y :: real
  chomp :: bool

record GameState =
  x :: real
  y :: real
  needs :: NeedsVector
  level :: real
  levelTime :: real
  status :: "string option"
  eaten :: bool
  monster :: MonsterState

text \<open>
  Reading a property of a needs-shaped object by a computed name, \<^verbatim>\<open>obj[name]\<close>:
  \<open>None\<close> stands for \<^verbatim>\<open>undefined\<close>.
\<close>

definition getField :: "NeedsVector \<Rightarrow> string \<Rightarrow> real option" where
  "getField obj name =
     (if name = ''hunger'' then Some (hunger obj)
      else if name = ''thirst'' then Some (thirst obj)
      else if name = ''energy'' then Some (energy obj)
      else if name = ''fun'' then Some (fun obj)
      else None)"

text \<open>\<^verbatim>\<open>Object.values(needs)\<close>: the values in the order the keys were written.\<close>

definition Object_values :: "NeedsVector \<Rightarrow> real list" where
  "Object_values obj = [hunger obj, thirst obj, energy obj, fun obj]"

subsection \<open>Constants\<close>

definition BASE_DRAIN :: NeedsVector where
  "BASE_DRAIN = \<lparr>hunger = 1.0, thirst = 1.0, energy = 1.0, fun = 1.0\<rparr>"

definition BASE_RECHARGE :: "(string \<times> (string \<times> real) list) list" where
  "BASE_RECHARGE =
     [(''lake'', [(''thirst'', 6)]),
      (''field'', [(''hunger'', 6)]),
      (''barn'', [(''energy'', 8)]),
      (''play'', [(''fun'', 6)])]"

text \<open>
  The static read \<^verbatim>\<open>BASE_RECHARGE.zone.need\<close>. The source only writes it for the
  four pairs that the table holds.
\<close>

definition BASE_RECHARGE_at :: "string \<Rightarrow> string \<Rightarrow> real" where
  "BASE_RECHARGE_at zone need = the (map_of (the (map_of BASE_RECHARGE zone)) need)"

definition DRAIN_GROWTH :: real where
  "DRAIN_GROWTH = 0.80"

definition RECHARGE_GROWTH :: real where
  "RECHARGE_GROWTH = 0.30"

definition LEVEL_TIME :: real where
  "LEVEL_TIME = 30"

subsection \<open>Utility\<close>

definition clamp :: "real \<Rightarrow> real \<Rightarrow> real \<Rightarrow> real" where
  "clamp v mn mx = max mn (min mx v)"

subsection \<open>Game state functions\<close>

definition createInitialState :: GameState where
  "createInitialState =
     \<lparr>x = 15,
      y = 25,
      needs = \<lparr>hunger = 100, thirst = 100, energy = 100, fun = 100\<rparr>,
      level = 1,
      levelTime = LEVEL_TIME,
      status = None,
      eaten = False,
      monster = \<lparr>MonsterState.x = - 20, MonsterState.y = 50, chomp = False\<rparr>\<rparr>"

definition calculateDrainMultiplier :: "real \<Rightarrow> real" where
  "calculateDrainMultiplier lv = 1 + (lv - 1) * DRAIN_GROWTH"

definition calculateRechargeMultiplier :: "real \<Rightarrow> real" where
  "calculateRechargeMultiplier lv = 1 + (lv - 1) * RECHARGE_GROWTH"

definition applyDrain :: "NeedsVector \<Rightarrow> real \<Rightarrow> real \<Rightarrow> NeedsVector" where
  "applyDrain nv lv dt =
     (let drainMult = calculateDrainMultiplier lv in
      \<lparr>hunger = clamp (hunger nv - hunger BASE_DRAIN * drainMult * dt) 0 100,
       thirst = clamp (thirst nv - thirst BASE_DRAIN * drainMult * dt) 0 100,
       energy = clamp (energy nv - energy BASE_DRAIN * drainMult * dt) 0 100,
       fun = clamp (fun nv - fun BASE_DRAIN * drainMult * dt) 0 100\<rparr>)"

text \<open>
  The four \<^verbatim>\<open>if\<close> statements of the source run one after the other on the copy
  \<^verbatim>\<open>updated\<close>; the model threads the copy through them in the same order.
\<close>

definition applyRecharge :: "NeedsVector \<Rightarrow> string option \<Rightarrow> real \<Rightarrow> real \<Rightarrow> NeedsVector" where
  "applyRecharge nv zone lv dt =
     (let rechargeMult = calculateRechargeMultiplier lv;
          updated = nv;
          updated = (if zone = Some ''lake''
                     then updated\<lparr>thirst := clamp (thirst updated
                            + BASE_RECHARGE_at ''lake'' ''thirst'' * rechargeMult * dt) 0 100\<rparr>
                     else updated);
          updated = (if zone = Some ''field''
                     then updated\<lparr>hunger := clamp (hunger updated
                            + BASE_RECHARGE_at ''field'' ''hunger'' * rechargeMult * dt) 0 100\<rparr>
                     else updated);
          updated = (if zone = Some ''barn''
                     then updated\<lparr>energy := clamp (energy updated
                            + BASE_RECHARGE_at ''barn'' ''energy'' * rechargeMult * dt) 0 100\<rparr>
                     else updated);
          updated = (if zone = Some ''play''
                     then updated\<lparr>fun := clamp (fun updated
                            + BASE_RECHARGE_at ''play'' ''fun'' * rechargeMult * dt) 0 100\<rparr>
                     else updated)
      in updated)"

definition updateNeeds :: "NeedsVector \<Rightarrow> string option \<Rightarrow> real \<Rightarrow> real \<Rightarrow> NeedsVector" where
  "updateNeeds nv zone lv dt =
     (let drained = applyDrain nv lv dt in applyRecharge drained zone lv dt)"

definition checkGameOver :: "NeedsVector \<Rightarrow> bool" where
  "checkGameOver nv = list_ex (\<lambda>v. v \<le> 0) (Object_values nv)"

definition checkLevelComplete :: "real \<Rightarrow> bool" where
  "checkLevelComplete t = (t \<le> 0)"

definition createNextLevelState :: "GameState \<Rightarrow> GameState" where
  "createNextLevelState currentState =
     currentState
       \<lparr>level := level currentState + 1,
        needs := \<lparr>hunger = 100, thirst = 100, energy = 100, fun = 100\<rparr>,
        levelTime := LEVEL_TIME,
        status := None,
        eaten := False,
        monster := \<lparr>MonsterState.x = - 20, MonsterState.y = 50, chomp = False\<rparr>\<rparr>"

definition updateLevelTimer :: "real \<Rightarrow> real \<Rightarrow> real" where
  "updateLevelTimer currentTime dt = currentTime - dt"

definition createMonsterChaseState :: "GameState \<Rightarrow> GameState" where
  "createMonsterChaseState currentState =
     currentState
       \<lparr>eaten := True,
        monster := \<lparr>MonsterState.x = - 20, MonsterState.y = y currentState, chomp = False\<rparr>\<rparr>"

definition zoneToNeed :: "(string \<times> string) list" where
  "zoneToNeed =
     [(''lake'', ''thirst''), (''field'', ''hunger''), (''barn'', ''energy''), (''play'', ''fun'')]"

subsection \<open>Binary64 arithmetic\<close>

text \<open>
  Rounding a real to the nearest integer, a tie going to the even neighbour.
\<close>

definition rne :: "real \<Rightarrow> int" where
  "rne r =
     (let f = \<lfloor>r\<rfloor>; d = r - of_int f
      in if d < 1 / 2 then f
         else if 1 / 2 < d then f + 1
         else if even f then f else f + 1)"

text \<open>
  \<open>fl v\<close> is the binary64 value nearest to \<open>v\<close>, ties to even. The magnitude is counted
  in units of \<^verbatim>\<open>2^-1074\<close>, the smallest positive binary64 value; a magnitude of more
  than 53 bits is rounded at its 53rd bit, a smaller one (a subnormal) at the unit. A
  result of magnitude \<^verbatim>\<open>2^1024\<close> or more is an infinity in the source and is outside
  the model, which keeps the rounded real.
\<close>

definition fl :: "real \<Rightarrow> real" where
  "fl v =
     (let a = \<bar>v\<bar> * 2 ^ 1074;
          j = nat (bitlen \<lfloor>a\<rfloor> - 53)
      in sgn v * (of_int (rne (a / 2 ^ j)) * 2 ^ j / 2 ^ 1074))"

text \<open>The operators \<^verbatim>\<open>+\<close>, \<^verbatim>\<open>-\<close> and \<^verbatim>\<open>*\<close> of the source on numbers.\<close>

definition add64 :: "real \<Rightarrow> real \<Rightarrow> real" where
  "add64 a b = fl (a + b)"

definition sub64 :: "real \<Rightarrow> real \<Rightarrow> real" where
  "sub64 a b = fl (a - b)"

definition mul64 :: "real \<Rightarrow> real \<Rightarrow> real" where
  "mul64 a b = fl (a * b)"

text \<open>A value that a number of the source can hold.\<close>

definition is_f64 :: "real \<Rightarrow> bool" where
  "is_f64 v = (fl v = v \<and> \<bar>v\<bar> < 2 ^ 1024)"

subsection \<open>The functions in binary64 arithmetic\<close>

text \<open>
  The literals \<^verbatim>\<open>0.80\<close> and \<^verbatim>\<open>0.30\<close> denote the binary64 values nearest to them. The
  other literals of the module (\<open>1\<close>, \<open>1.0\<close>, \<open>6\<close>, \<open>8\<close>, \<open>0\<close>, \<open>100\<close>) are binary64 values
  themselves, and \<^verbatim>\<open>Math.max\<close>, \<^verbatim>\<open>Math.min\<close> and the unary minus do not round.
\<close>

definition DRAIN_GROWTH_f64 :: real where
  "DRAIN_GROWTH_f64 = fl 0.80"

definition RECHARGE_GROWTH_f64 :: real where
  "RECHARGE_GROWTH_f64 = fl 0.30"

definition calculateDrainMultiplier_f64 :: "real \<Rightarrow> real" where
  "calculateDrainMultiplier_f64 lv = add64 1 (mul64 (sub64 lv 1) DRAIN_GROWTH_f64)"

definition calculateRechargeMultiplier_f64 :: "real \<Rightarrow> real" where
  "calculateRechargeMultiplier_f64 lv = add64 1 (mul64 (sub64 lv 1) RECHARGE_GROWTH_f64)"

definition applyDrain_f64 :: "NeedsVector \<Rightarrow> real \<Rightarrow> real \<Rightarrow> NeedsVector" where
  "applyDrain_f64 nv lv dt =
     (let drainMult = calculateDrainMultiplier_f64 lv in
      \<lparr>hunger = clamp (sub64 (hunger nv) (mul64 (mul64 (hunger BASE_DRAIN) drainMult) dt)) 0 100,
       thirst = clamp (sub64 (thirst nv) (mul64 (mul64 (thirst BASE_DRAIN) drainMult) dt)) 0 100,
       energy = clamp (sub64 (energy nv) (mul64 (mul64 (energy BASE_DRAIN) drainMult) dt)) 0 100,
       fun = clamp (sub64 (fun nv) (mul64 (mul64 (fun BASE_DRAIN) drainMult) dt)) 0 100\<rparr>)"

definition applyRecharge_f64 :: "NeedsVector \<Rightarrow> string option \<Rightarrow> real \<Rightarrow> real \<Rightarrow> NeedsVector" where
  "applyRecharge_f64 nv zone lv dt =
     (let rechargeMult = calculateRechargeMultiplier_f64 lv;
          updated = nv;
          updated = (if zone = Some ''lake''
                     then updated\<lparr>thirst := clamp (add64 (thirst updated)
                            (mul64 (mul64 (BASE_RECHARGE_at ''lake'' ''thirst'') rechargeMult) dt)) 0 100\<rparr>
                     else updated);
          updated = (if zone = Some ''field''
                     then updated\<lparr>hunger := clamp (add64 (hunger updated)
                            (mul64 (mul64 (BASE_RECHARGE_at ''field'' ''hunger'') rechargeMult) dt)) 0 100\<rparr>
                     else updated);
          updated = (if zone = Some ''barn''
                     then updated\<lparr>energy := clamp (add64 (energy updated)
                            (mul64 (mul64 (BASE_RECHARGE_at ''barn'' ''energy'') rechargeMult) dt)) 0 100\<rparr>
                     else updated);
          updated = (if zone = Some ''play''
                     then updated\<lparr>fun := clamp (add64 (fun updated)
                            (mul64 (mul64 (BASE_RECHARGE_at ''play'' ''fun'') rechargeMult) dt)) 0 100\<rparr>
                     else updated)
      in updated)"

definition updateNeeds_f64 :: "NeedsVector \<Rightarrow> string option \<Rightarrow> real \<Rightarrow> real \<Rightarrow> NeedsVector" where
  "updateNeeds_f64 nv zone lv dt =
     (let drained = applyDrain_f64 nv lv dt in applyRecharge_f64 drained zone lv dt)"

text \<open>
  \<^verbatim>\<open>calculateNetNeedChange\<close>. The result is \<open>None\<close> where the source has no number
  to return: \<^verbatim>\<open>-BASE_DRAIN[needType]\<close> is NaN for a name that is not a need, and it
  stays NaN to the end. The guard \<^verbatim>\<open>zone && ...\<close> fails for \<^verbatim>\<open>null\<close> and for the
  empty string. Inside the guard the zone is a key of \<^verbatim>\<open>zoneToNeed\<close>, hence of
  \<^verbatim>\<open>BASE_RECHARGE\<close>, whose objects have one value each, so the last two \<open>None\<close>
  branches are never taken.
\<close>

definition calculateNetNeedChange_f64 :: "string \<Rightarrow> string option \<Rightarrow> real \<Rightarrow> real \<Rightarrow> real option" where
  "calculateNetNeedChange_f64 needType zone lv dt =
     (let drainMult = calculateDrainMultiplier_f64 lv;
          rechargeMult = calculateRechargeMultiplier_f64 lv
      in case getField BASE_DRAIN needType of
           None \<Rightarrow> None
         | Some base \<Rightarrow>
             (let change = mul64 (mul64 (- base) drainMult) dt in
              case zone of
                None \<Rightarrow> Some change
              | Some z \<Rightarrow>
                  if z \<noteq> [] \<and> map_of zoneToNeed z = Some needType
                  then (case map_of BASE_RECHARGE z of
                          None \<Rightarrow> None
                        | Some obj \<Rightarrow>
                            (case map snd obj of
                               [] \<Rightarrow> None
                             | rechargeValue # _ \<Rightarrow>
                                 Some (add64 change (mul64 (mul64 rechargeValue rechargeMult) dt))))
                  else Some change))"

subsection \<open>Vocabulary of the properties\<close>

text \<open>The invariant of a needs vector: each of the four fields lies in \<open>[0, 100]\<close>.\<close>

definition inRange :: "NeedsVector \<Rightarrow> bool" where
  "inRange nv =
     (0 \<le> hunger nv \<and> hunger nv \<le> 100 \<and> 0 \<le> thirst nv \<and> thirst nv \<le> 100 \<and>
      0 \<le> energy nv \<and> energy nv \<le> 100 \<and> 0 \<le> fun nv \<and> fun nv \<le> 100)"

text \<open>Field by field, the first vector is at most the second.\<close>

definition fieldwise_le :: "NeedsVector \<Rightarrow> NeedsVector \<Rightarrow> bool" where
  "fieldwise_le a b =
     (hunger a \<le> hunger b \<and> thirst a \<le> thirst b \<and> energy a \<le> energy b \<and> fun a \<le> fun b)"

text \<open>The four zone tags that the engine recognises.\<close>

definition recognized :: "string option \<Rightarrow> bool" where
  "recognized zone =
     (zone = Some ''lake'' \<or> zone = Some ''field'' \<or> zone = Some ''barn'' \<or> zone = Some ''play'')"

text \<open>
  \<^verbatim>\<open>after[needType] - before[needType]\<close>, the change of one named need between two
  needs vectors; \<open>None\<close> when the name is not a need.
\<close>

definition needDelta :: "NeedsVector \<Rightarrow> NeedsVector \<Rightarrow> string \<Rightarrow> real option" where
  "needDelta after before needType =
     (case getField after needType of
        None \<Rightarrow> None
      | Some a \<Rightarrow> (case getField before needType of None \<Rightarrow> None | Some b \<Rightarrow> Some (a - b)))"

text \<open>Every field of the needs vector is at least \<open>0\<close>.\<close>

definition nonNegative :: "NeedsVector \<Rightarrow> bool" where
  "nonNegative nv = (0 \<le> hunger nv \<and> 0 \<le> thirst nv \<and> 0 \<le> energy nv \<and> 0 \<le> fun nv)"

text \<open>
  The base rate at which a zone recharges a named need, read from the table
  \<^const>\<open>BASE_RECHARGE\<close> alone: \<open>None\<close> when there is no zone, when the zone is not in the
  table, or when the zone does not recharge that need.
\<close>

definition rechargeRateFor :: "string \<Rightarrow> string option \<Rightarrow> real option" where
  "rechargeRateFor needType zone =
     (case zone of
        None \<Rightarrow> None
      | Some z \<Rightarrow> (case map_of BASE_RECHARGE z of None \<Rightarrow> None | Some obj \<Rightarrow> map_of obj needType))"

text \<open>
  No clamping boundary is crossed for the named need during one combined step in binary64
  arithmetic: the number that the drain hands to \<^verbatim>\<open>clamp\<close> lies in \<open>[0, 100]\<close>, and when
  the zone recharges that need, so does the number that the recharge hands to
  \<^verbatim>\<open>clamp\<close>. A name that is not a need has no such numbers.
\<close>

definition noClampCrossed_f64 :: "NeedsVector \<Rightarrow> string \<Rightarrow> string option \<Rightarrow> real \<Rightarrow> real \<Rightarrow> bool" where
  "noClampCrossed_f64 nv needType zone lv dt =
     (case getField nv needType of
        None \<Rightarrow> False
      | Some v \<Rightarrow>
          (case getField BASE_DRAIN needType of
             None \<Rightarrow> False
           | Some base \<Rightarrow>
               (let drained = sub64 v (mul64 (mul64 base (calculateDrainMultiplier_f64 lv)) dt)
                in 0 \<le> drained \<and> drained \<le> 100 \<and>
                   (case rechargeRateFor needType zone of
                      None \<Rightarrow> True
                    | Some rate \<Rightarrow>
                        (let recharged = add64 drained
                               (mul64 (mul64 rate (calculateRechargeMultiplier_f64 lv)) dt)
                         in 0 \<le> recharged \<and> recharged \<le> 100)))))"

section \<open>Helper facts\<close>

lemma clamp_bounds: "0 \<le> clamp v 0 100 \<and> clamp v 0 100 \<le> 100"
  by (simp add: clamp_def)

lemma clamp_id: "0 \<le> v \<Longrightarrow> v \<le> 100 \<Longrightarrow> clamp v 0 100 = v"
  by (simp add: clamp_def)

lemma BASE_RECHARGE_at_simps:
  "BASE_RECHARGE_at ''lake'' ''thirst'' = 6"
  "BASE_RECHARGE_at ''field'' ''hunger'' = 6"
  "BASE_RECHARGE_at ''barn'' ''energy'' = 8"
  "BASE_RECHARGE_at ''play'' ''fun'' = 6"
  by (simp_all add: BASE_RECHARGE_at_def BASE_RECHARGE_def)

lemma inRange_applyDrain: "inRange (applyDrain nv lv dt)"
  by (simp add: inRange_def applyDrain_def Let_def clamp_bounds)

lemma inRange_applyRecharge: "inRange nv \<Longrightarrow> inRange (applyRecharge nv zone lv dt)"
  by (simp add: inRange_def applyRecharge_def Let_def clamp_bounds)

subsection \<open>Binary64 rounding\<close>

text \<open>
  The error of one rounding, its sign, and a rule that evaluates it on a given value once
  the binary exponent of the value is known.
\<close>

lemma rne_error: "\<bar>of_int (rne r) - r\<bar> \<le> 1 / 2"
proof -
  have "of_int \<lfloor>r\<rfloor> \<le> r" "r < of_int \<lfloor>r\<rfloor> + 1"
    by linarith+
  then show ?thesis
    by (auto simp: rne_def Let_def)
qed

lemma fl_zero: "fl 0 = 0"
  by (simp add: fl_def)

lemma fl_minus: "fl (- v) = - fl v"
  by (simp add: fl_def Let_def sgn_minus)

lemma bitlen_eqI:
  assumes "2 ^ n \<le> m" "m < 2 ^ Suc n"
  shows "bitlen m = int n + 1"
proof -
  from assms(1) have pos: "0 < m"
    by (smt (verit) zero_less_power)
  from bitlen_bounds [OF pos]
  have lo: "2 ^ nat (bitlen m - 1) \<le> m" and hi: "m < 2 ^ nat (bitlen m)"
    by simp_all
  have b1: "1 \<le> bitlen m"
    using pos bitlen_eq_zero_iff [of m] bitlen_nonneg [of m] by linarith
  have "(2::int) ^ n < 2 ^ nat (bitlen m)"
    using assms(1) hi by linarith
  then have "n < nat (bitlen m)"
    by (simp add: power_strict_increasing_iff)
  moreover have "(2::int) ^ nat (bitlen m - 1) < 2 ^ Suc n"
    using lo assms(2) by linarith
  then have "nat (bitlen m - 1) < Suc n"
    by (simp only: power_strict_increasing_iff one_less_numeral_iff semiring_norm)
  ultimately show ?thesis
    using b1 by linarith
qed

lemma fl_error: "\<bar>fl v - v\<bar> \<le> \<bar>v\<bar> / 2 ^ 53 + 1 / 2 ^ 1075"
proof -
  define P :: real where "P = 2 ^ 1074"
  define a where "a = \<bar>v\<bar> * P"
  define j where "j = nat (bitlen \<lfloor>a\<rfloor> - 53)"
  define r where "r = a / 2 ^ j"
  define w where "w = (2::real) ^ j / P"
  have P0: "0 < P"
    by (simp add: P_def)
  have w0: "0 \<le> w"
    using P0 by (simp add: w_def)
  have flv: "fl v = sgn v * (of_int (rne r) * w)"
    unfolding fl_def Let_def a_def j_def r_def P_def w_def by simp
  have "r * w = \<bar>v\<bar>"
    using P0 by (simp add: r_def w_def a_def)
  then have v: "v = sgn v * (r * w)"
    using sgn_mult_abs [of v] by simp
  have "fl v - v = sgn v * (of_int (rne r) * w) - sgn v * (r * w)"
    using flv v by simp
  also have "\<dots> = sgn v * ((of_int (rne r) - r) * w)"
    by (simp add: algebra_simps)
  finally have "\<bar>fl v - v\<bar> = \<bar>sgn v\<bar> * (\<bar>of_int (rne r) - r\<bar> * w)"
    using w0 by (simp add: abs_mult)
  also have "\<dots> \<le> 1 * (1 / 2 * w)"
    using w0 by (intro mult_mono mult_right_mono rne_error) (auto simp: abs_sgn_eq)
  finally have e: "\<bar>fl v - v\<bar> \<le> w / 2"
    by simp
  show ?thesis
  proof (cases "j = 0")
    case True
    then have "w / 2 = 1 / 2 ^ 1075"
      by (simp add: w_def P_def)
    with e have "\<bar>fl v - v\<bar> \<le> 1 / 2 ^ 1075"
      by simp
    moreover have "0 \<le> \<bar>v\<bar> / 2 ^ 53"
      by simp
    ultimately show ?thesis
      by linarith
  next
    case False
    then have bl: "bitlen \<lfloor>a\<rfloor> = int j + 53"
      by (simp add: j_def)
    then have pos: "0 < \<lfloor>a\<rfloor>"
      using bitlen_eq_zero_iff [of "\<lfloor>a\<rfloor>"] by linarith
    have "nat (bitlen \<lfloor>a\<rfloor> - 1) = j + 52"
      using bl by simp
    with bitlen_bounds [OF pos] have "(2::int) ^ (j + 52) \<le> \<lfloor>a\<rfloor>"
      by simp
    then have "of_int ((2::int) ^ (j + 52)) \<le> (of_int \<lfloor>a\<rfloor> :: real)"
      by (simp only: of_int_le_iff)
    also have "\<dots> \<le> a"
      by simp
    finally have "(2::real) ^ j * 2 ^ 52 \<le> \<bar>v\<bar> * P"
      by (simp add: power_add a_def)
    then have "(2::real) ^ j / P * 2 ^ 52 \<le> \<bar>v\<bar>"
      using P0 by (simp add: field_simps)
    then have "w / 2 \<le> \<bar>v\<bar> / 2 ^ 53"
      by (simp add: w_def mult.commute)
    moreover have "(0::real) \<le> 1 / 2 ^ 1075"
      by simp
    ultimately show ?thesis
      using e by linarith
  qed
qed

lemma fl_eval:
  assumes "0 < v" "2 ^ 52 \<le> v * 2 ^ k" "v * 2 ^ k < 2 ^ 53" "k \<le> 1074"
  shows "fl v = of_int (rne (v * 2 ^ k)) / 2 ^ k"
proof -
  define a where "a = \<bar>v\<bar> * 2 ^ 1074"
  obtain d where d: "1074 = k + d"
    using assms(4) by (metis le_Suc_ex)
  have a: "a = v * 2 ^ k * 2 ^ d"
    using assms(1) by (simp add: a_def d power_add)
  have "(2::real) ^ 52 * 2 ^ d \<le> a"
    unfolding a using assms(2) by (intro mult_right_mono) simp_all
  then have "of_int ((2::int) ^ (52 + d)) \<le> a"
    by (simp add: power_add)
  then have lo: "(2::int) ^ (52 + d) \<le> \<lfloor>a\<rfloor>"
    by (simp only: le_floor_iff)
  have "a < (2::real) ^ 53 * 2 ^ d"
    unfolding a using assms(3) by (intro mult_strict_right_mono) simp_all
  then have "a < of_int ((2::int) ^ (53 + d))"
    by (simp add: power_add)
  then have hi: "\<lfloor>a\<rfloor> < (2::int) ^ Suc (52 + d)"
    by (simp add: floor_less_iff)
  from bitlen_eqI [OF lo hi] have "nat (bitlen \<lfloor>a\<rfloor> - 53) = d"
    by simp
  then have "fl v = sgn v * (of_int (rne (a / 2 ^ d)) * 2 ^ d / 2 ^ 1074)"
    by (simp add: fl_def Let_def a_def)
  also have "a / 2 ^ d = v * 2 ^ k"
    by (simp add: a)
  also have "sgn v = 1"
    using assms(1) by simp
  finally show ?thesis
    by (simp add: d power_add)
qed

lemma rne_nonneg: "0 \<le> r \<Longrightarrow> 0 \<le> rne r"
proof -
  assume "0 \<le> r"
  then have "0 \<le> \<lfloor>r\<rfloor>" by simp
  then show ?thesis by (simp add: rne_def Let_def)
qed

lemma fl_nonneg: "0 \<le> v \<Longrightarrow> 0 \<le> fl v"
proof -
  assume v: "0 \<le> v"
  have "0 \<le> rne (\<bar>v\<bar> * 2 ^ 1074 / 2 ^ nat (bitlen \<lfloor>\<bar>v\<bar> * 2 ^ 1074\<rfloor> - 53))"
    by (rule rne_nonneg) simp
  then have "0 \<le> real_of_int (rne (\<bar>v\<bar> * 2 ^ 1074 / 2 ^ nat (bitlen \<lfloor>\<bar>v\<bar> * 2 ^ 1074\<rfloor> - 53)))
      * 2 ^ nat (bitlen \<lfloor>\<bar>v\<bar> * 2 ^ 1074\<rfloor> - 53) / 2 ^ 1074"
    by simp
  moreover have "0 \<le> sgn v"
    using v by (simp add: sgn_if)
  ultimately show ?thesis
    unfolding fl_def Let_def by (rule mult_nonneg_nonneg [rotated])
qed

lemma fl_lower: "0 \<le> v \<Longrightarrow> v - (v / 2 ^ 53 + 1 / 2 ^ 1075) \<le> fl v"
  using fl_error [of v] by linarith

lemma fl_upper: "0 \<le> v \<Longrightarrow> fl v \<le> v + (v / 2 ^ 53 + 1 / 2 ^ 1075)"
  using fl_error [of v] by linarith

text \<open>The roundings that the examples below go through.\<close>

lemma fl_at_0: "fl (5404319552844595 / 81129638414606681695789005144064) = 5404319552844595 / 81129638414606681695789005144064"
  using fl_eval [of "5404319552844595 / 81129638414606681695789005144064" 106] by (simp add: rne_def)

lemma fl_at_1: "fl (5404319552844595 / 40564819207303340847894502572032) = 5404319552844595 / 40564819207303340847894502572032"
  using fl_eval [of "5404319552844595 / 40564819207303340847894502572032" 105] by (simp add: rne_def)

lemma fl_at_2: "fl (3602879701896397 / 20282409603651670423947251286016) = 3602879701896397 / 20282409603651670423947251286016"
  using fl_eval [of "3602879701896397 / 20282409603651670423947251286016" 105] by (simp add: rne_def)

lemma fl_at_3: "fl (16212958658533785 / 81129638414606681695789005144064) = 2026619832316723 / 10141204801825835211973625643008"
  using fl_eval [of "16212958658533785 / 81129638414606681695789005144064" 105] by (simp add: rne_def)

lemma fl_at_4: "fl (1 / 4503599627370496) = 1 / 4503599627370496"
  using fl_eval [of "1 / 4503599627370496" 104] by (simp add: rne_def)

lemma fl_at_5: "fl (3602879701896397 / 10141204801825835211973625643008) = 3602879701896397 / 10141204801825835211973625643008"
  using fl_eval [of "3602879701896397 / 10141204801825835211973625643008" 104] by (simp add: rne_def)

lemma fl_at_6: "fl (1 / 2251799813685248) = 1 / 2251799813685248"
  using fl_eval [of "1 / 2251799813685248" 103] by (simp add: rne_def)

lemma fl_at_7: "fl (10808639105689191 / 20282409603651670423947251286016) = 1351079888211149 / 2535301200456458802993406410752"
  using fl_eval [of "10808639105689191 / 20282409603651670423947251286016" 103] by (simp add: rne_def)

lemma fl_at_8: "fl (3 / 4503599627370496) = 3 / 4503599627370496"
  using fl_eval [of "3 / 4503599627370496" 103] by (simp add: rne_def)

lemma fl_at_9: "fl (1 / 10) = 3602879701896397 / 36028797018963968"
  using fl_eval [of "1 / 10" 56] by (simp add: rne_def)

lemma fl_at_10: "fl (3602879701896397 / 36028797018963968) = 3602879701896397 / 36028797018963968"
  using fl_eval [of "3602879701896397 / 36028797018963968" 56] by (simp add: rne_def)

lemma fl_at_11: "fl (5404319552844595 / 18014398509481984) = 5404319552844595 / 18014398509481984"
  using fl_eval [of "5404319552844595 / 18014398509481984" 54] by (simp add: rne_def)

lemma fl_at_12: "fl (3 / 10) = 5404319552844595 / 18014398509481984"
  using fl_eval [of "3 / 10" 54] by (simp add: rne_def)

lemma fl_at_13: "fl (1351079888211149 / 4503599627370496) = 1351079888211149 / 4503599627370496"
  using fl_eval [of "1351079888211149 / 4503599627370496" 54] by (simp add: rne_def)

lemma fl_at_14: "fl (18014398509481987 / 36028797018963968) = 4503599627370497 / 9007199254740992"
  using fl_eval [of "18014398509481987 / 36028797018963968" 53] by (simp add: rne_def)

lemma fl_at_15: "fl (5404319552844595 / 9007199254740992) = 5404319552844595 / 9007199254740992"
  using fl_eval [of "5404319552844595 / 9007199254740992" 53] by (simp add: rne_def)

lemma fl_at_16: "fl (10808639105689191 / 18014398509481984) = 1351079888211149 / 2251799813685248"
  using fl_eval [of "10808639105689191 / 18014398509481984" 53] by (simp add: rne_def)

lemma fl_at_17: "fl (4 / 5) = 3602879701896397 / 4503599627370496"
  using fl_eval [of "4 / 5" 53] by (simp add: rne_def)

lemma fl_at_18: "fl (3602879701896397 / 4503599627370496) = 3602879701896397 / 4503599627370496"
  using fl_eval [of "3602879701896397 / 4503599627370496" 53] by (simp add: rne_def)

lemma fl_at_19: "fl (1801439850948199 / 2251799813685248) = 1801439850948199 / 2251799813685248"
  using fl_eval [of "1801439850948199 / 2251799813685248" 53] by (simp add: rne_def)

lemma fl_at_20: "fl (16212958658533785 / 18014398509481984) = 2026619832316723 / 2251799813685248"
  using fl_eval [of "16212958658533785 / 18014398509481984" 53] by (simp add: rne_def)

lemma fl_at_21: "fl (1) = 1"
  using fl_eval [of "1" 52] by (simp add: rne_def)

lemma fl_at_22: "fl (81129638414606687100108557988659 / 81129638414606681695789005144064) = 1"
  using fl_eval [of "81129638414606687100108557988659 / 81129638414606681695789005144064" 52] by (simp add: rne_def)

lemma fl_at_23: "fl (40564819207303346252214055416627 / 40564819207303340847894502572032) = 4503599627370497 / 4503599627370496"
  using fl_eval [of "40564819207303346252214055416627 / 40564819207303340847894502572032" 52] by (simp add: rne_def)

lemma fl_at_24: "fl (20282409603651674026826953182413 / 20282409603651670423947251286016) = 4503599627370497 / 4503599627370496"
  using fl_eval [of "20282409603651674026826953182413 / 20282409603651670423947251286016" 52] by (simp add: rne_def)

lemma fl_at_25: "fl (10141204801825837238593457959731 / 10141204801825835211973625643008) = 4503599627370497 / 4503599627370496"
  using fl_eval [of "10141204801825837238593457959731 / 10141204801825835211973625643008" 52] by (simp add: rne_def)

lemma fl_at_26: "fl (10141204801825838814853327539405 / 10141204801825835211973625643008) = 2251799813685249 / 2251799813685248"
  using fl_eval [of "10141204801825838814853327539405 / 10141204801825835211973625643008" 52] by (simp add: rne_def)

lemma fl_at_27: "fl (2535301200456460154073294621901 / 2535301200456458802993406410752) = 2251799813685249 / 2251799813685248"
  using fl_eval [of "2535301200456460154073294621901 / 2535301200456458802993406410752" 52] by (simp add: rne_def)

lemma fl_at_28: "fl (23418718062326579 / 18014398509481984) = 5854679515581645 / 4503599627370496"
  using fl_eval [of "23418718062326579 / 18014398509481984" 52] by (simp add: rne_def)

lemma fl_at_29: "fl (14411518807585587 / 9007199254740992) = 3602879701896397 / 2251799813685248"
  using fl_eval [of "14411518807585587 / 9007199254740992" 52] by (simp add: rne_def)

lemma fl_at_30: "fl (3602879701896397 / 2251799813685248) = 3602879701896397 / 2251799813685248"
  using fl_eval [of "3602879701896397 / 2251799813685248" 52] by (simp add: rne_def)

lemma fl_at_31: "fl (8106479329266893 / 4503599627370496) = 8106479329266893 / 4503599627370496"
  using fl_eval [of "8106479329266893 / 4503599627370496" 52] by (simp add: rne_def)

lemma fl_at_32: "fl (4278419646001971 / 2251799813685248) = 4278419646001971 / 2251799813685248"
  using fl_eval [of "4278419646001971 / 2251799813685248" 52] by (simp add: rne_def)

lemma fl_at_33: "fl (2) = 2"
  using fl_eval [of "2" 51] by (simp add: rne_def)

lemma fl_at_34: "fl (10808639105689191 / 4503599627370496) = 1351079888211149 / 562949953421312"
  using fl_eval [of "10808639105689191 / 4503599627370496" 51] by (simp add: rne_def)

lemma fl_at_35: "fl (5854679515581645 / 2251799813685248) = 5854679515581645 / 2251799813685248"
  using fl_eval [of "5854679515581645 / 2251799813685248" 51] by (simp add: rne_def)

lemma fl_at_36: "fl (3) = 3"
  using fl_eval [of "3" 51] by (simp add: rne_def)

lemma fl_at_37: "fl (1914029841632461 / 562949953421312) = 1914029841632461 / 562949953421312"
  using fl_eval [of "1914029841632461 / 562949953421312" 51] by (simp add: rne_def)

lemma fl_at_38: "fl (6) = 6"
  using fl_eval [of "6" 50] by (simp add: rne_def)

lemma fl_at_39: "fl (1797836971246302003 / 36028797018963968) = 7022800668930867 / 140737488355328"
  using fl_eval [of "1797836971246302003 / 36028797018963968" 47] by (simp add: rne_def)

lemma fl_at_40: "fl (113715890591105021 / 2251799813685248) = 101 / 2"
  using fl_eval [of "113715890591105021 / 2251799813685248" 47] by (simp add: rne_def)

lemmas fl_values = fl_at_0 fl_at_1 fl_at_2 fl_at_3 fl_at_4 fl_at_5 fl_at_6 fl_at_7 fl_at_8 fl_at_9 fl_at_10 fl_at_11 fl_at_12 fl_at_13 fl_at_14 fl_at_15 fl_at_16 fl_at_17 fl_at_18 fl_at_19 fl_at_20 fl_at_21 fl_at_22 fl_at_23 fl_at_24 fl_at_25 fl_at_26 fl_at_27 fl_at_28 fl_at_29 fl_at_30 fl_at_31 fl_at_32 fl_at_33 fl_at_34 fl_at_35 fl_at_36 fl_at_37 fl_at_38 fl_at_39 fl_at_40

subsection \<open>The multipliers in binary64 arithmetic\<close>

lemma DRAIN_GROWTH_f64_value: "DRAIN_GROWTH_f64 = 3602879701896397 / 4503599627370496"
  by (simp add: DRAIN_GROWTH_f64_def fl_values)

lemma RECHARGE_GROWTH_f64_value: "RECHARGE_GROWTH_f64 = 5404319552844595 / 18014398509481984"
  by (simp add: RECHARGE_GROWTH_f64_def fl_values)

lemma drain_one: "calculateDrainMultiplier_f64 1 = 1"
  by (simp add: calculateDrainMultiplier_f64_def add64_def sub64_def mul64_def fl_zero fl_values)

lemma recharge_one: "calculateRechargeMultiplier_f64 1 = 1"
  by (simp add: calculateRechargeMultiplier_f64_def add64_def sub64_def mul64_def fl_zero fl_values)

lemma drain_formula:
  assumes "1 \<le> L"
  shows "\<bar>calculateDrainMultiplier_f64 L - (1 + (L - 1) * (4 / 5))\<bar> \<le> L / 2 ^ 51"
proof -
  define n where "n = fl (L - 1)"
  define b where "b = fl (n * (3602879701896397 / 4503599627370496))"
  define d where "d = fl (1 + b)"
  have x0: "0 \<le> L - 1" using assms by simp
  have n0: "0 \<le> n" unfolding n_def using x0 by (rule fl_nonneg)
  have p0: "0 \<le> n * (3602879701896397 / 4503599627370496)" using n0 by simp
  have b0: "0 \<le> b" unfolding b_def using p0 by (rule fl_nonneg)
  have s0: "0 \<le> 1 + b" using b0 by simp
  note n1 = fl_lower [OF x0, folded n_def] and n2 = fl_upper [OF x0, folded n_def]
  note b1 = fl_lower [OF p0, folded b_def] and b2 = fl_upper [OF p0, folded b_def]
  note d1 = fl_lower [OF s0, folded d_def] and d2 = fl_upper [OF s0, folded d_def]
  have "calculateDrainMultiplier_f64 L = d"
    by (simp add: calculateDrainMultiplier_f64_def add64_def sub64_def mul64_def
        DRAIN_GROWTH_f64_value d_def b_def n_def)
  moreover have "d - (1 + (L - 1) * (4 / 5)) \<le> L / 2 ^ 51"
    using n2 b2 d2 x0 n0 b0 by (simp add: field_simps) 
  moreover have "- (L / 2 ^ 51) \<le> d - (1 + (L - 1) * (4 / 5))"
    using n1 b1 d1 x0 n0 b0 by (simp add: field_simps)
  ultimately show ?thesis by linarith
qed

lemma recharge_formula:
  assumes "1 \<le> L"
  shows "\<bar>calculateRechargeMultiplier_f64 L - (1 + (L - 1) * (3 / 10))\<bar> \<le> L / 2 ^ 51"
proof -
  define n where "n = fl (L - 1)"
  define b where "b = fl (n * (5404319552844595 / 18014398509481984))"
  define d where "d = fl (1 + b)"
  have x0: "0 \<le> L - 1" using assms by simp
  have n0: "0 \<le> n" unfolding n_def using x0 by (rule fl_nonneg)
  have p0: "0 \<le> n * (5404319552844595 / 18014398509481984)" using n0 by simp
  have b0: "0 \<le> b" unfolding b_def using p0 by (rule fl_nonneg)
  have s0: "0 \<le> 1 + b" using b0 by simp
  note n1 = fl_lower [OF x0, folded n_def] and n2 = fl_upper [OF x0, folded n_def]
  note b1 = fl_lower [OF p0, folded b_def] and b2 = fl_upper [OF p0, folded b_def]
  note d1 = fl_lower [OF s0, folded d_def] and d2 = fl_upper [OF s0, folded d_def]
  have "calculateRechargeMultiplier_f64 L = d"
    by (simp add: calculateRechargeMultiplier_f64_def add64_def sub64_def mul64_def
        RECHARGE_GROWTH_f64_value d_def b_def n_def)
  moreover have "d - (1 + (L - 1) * (3 / 10)) \<le> L / 2 ^ 51"
    using n2 b2 d2 x0 n0 b0 by (simp add: field_simps) 
  moreover have "- (L / 2 ^ 51) \<le> d - (1 + (L - 1) * (3 / 10))"
    using n1 b1 d1 x0 n0 b0 by (simp add: field_simps)
  ultimately show ?thesis by linarith
qed


lemma drain_step:
  assumes "1 \<le> L"
  shows "\<bar>calculateDrainMultiplier_f64 (L + 1) - calculateDrainMultiplier_f64 L - (4 / 5)\<bar> \<le> L / 2 ^ 49"
proof -
  have "1 \<le> L + 1" using assms by simp
  from drain_formula [OF this]
  have A: "\<bar>calculateDrainMultiplier_f64 (L + 1) - (1 + L * (4 / 5))\<bar> \<le> (L + 1) / 2251799813685248"
    by simp
  from drain_formula [OF assms]
  have B: "\<bar>calculateDrainMultiplier_f64 L - (1 + (L - 1) * (4 / 5))\<bar> \<le> L / 2251799813685248"
    by simp
  have "\<bar>calculateDrainMultiplier_f64 (L + 1) - calculateDrainMultiplier_f64 L - 4 / 5\<bar> \<le> L / 562949953421312"
    using A B assms unfolding abs_le_iff by (simp add: field_simps)
  then show ?thesis
    by simp
qed

lemma recharge_step:
  assumes "1 \<le> L"
  shows "\<bar>calculateRechargeMultiplier_f64 (L + 1) - calculateRechargeMultiplier_f64 L - (3 / 10)\<bar> \<le> L / 2 ^ 49"
proof -
  have "1 \<le> L + 1" using assms by simp
  from recharge_formula [OF this]
  have A: "\<bar>calculateRechargeMultiplier_f64 (L + 1) - (1 + L * (3 / 10))\<bar> \<le> (L + 1) / 2251799813685248"
    by simp
  from recharge_formula [OF assms]
  have B: "\<bar>calculateRechargeMultiplier_f64 L - (1 + (L - 1) * (3 / 10))\<bar> \<le> L / 2251799813685248"
    by simp
  have "\<bar>calculateRechargeMultiplier_f64 (L + 1) - calculateRechargeMultiplier_f64 L - 3 / 10\<bar> \<le> L / 562949953421312"
    using A B assms unfolding abs_le_iff by (simp add: field_simps)
  then show ?thesis
    by simp
qed

lemma drain_gt_recharge_far:
  assumes "1 + 1 / 2 ^ 50 \<le> L"
  shows "calculateRechargeMultiplier_f64 L < calculateDrainMultiplier_f64 L"
proof -
  define n where "n = fl (L - 1)"
  define b where "b = fl (n * (3602879701896397 / 4503599627370496))"
  define d where "d = fl (1 + b)"
  define a where "a = fl (n * (5404319552844595 / 18014398509481984))"
  define r where "r = fl (1 + a)"
  have x0: "0 \<le> L - 1" using assms by simp
  have n0: "0 \<le> n" unfolding n_def using x0 by (rule fl_nonneg)
  have p0: "0 \<le> n * (3602879701896397 / 4503599627370496)" using n0 by simp
  have q0: "0 \<le> n * (5404319552844595 / 18014398509481984)" using n0 by simp
  have b0: "0 \<le> b" unfolding b_def using p0 by (rule fl_nonneg)
  have a0: "0 \<le> a" unfolding a_def using q0 by (rule fl_nonneg)
  have s0: "0 \<le> 1 + b" using b0 by simp
  have t0: "0 \<le> 1 + a" using a0 by simp
  note n1 = fl_lower [OF x0, folded n_def]
  note b1 = fl_lower [OF p0, folded b_def]
  note d1 = fl_lower [OF s0, folded d_def]
  note a2 = fl_upper [OF q0, folded a_def]
  note r2 = fl_upper [OF t0, folded r_def]
  have dm: "calculateDrainMultiplier_f64 L = d"
    by (simp add: calculateDrainMultiplier_f64_def add64_def sub64_def mul64_def
        DRAIN_GROWTH_f64_value d_def b_def n_def)
  have rm: "calculateRechargeMultiplier_f64 L = r"
    by (simp add: calculateRechargeMultiplier_f64_def add64_def sub64_def mul64_def
        RECHARGE_GROWTH_f64_value r_def a_def n_def)
  have "r < d"
    using n1 b1 d1 a2 r2 assms n0 by (simp add: field_simps)
  with dm rm show ?thesis by simp
qed

lemma near_one_cases:
  assumes "is_f64 L" "1 < L" "L < 1 + 1 / 2 ^ 50"
  shows "L = 4503599627370497 / 4503599627370496 \<or>
         L = 4503599627370498 / 4503599627370496 \<or>
         L = 4503599627370499 / 4503599627370496"
proof -
  define m where "m = rne (L * 2 ^ 52)"
  have pos: "0 < L" using assms(2) by simp
  have lo: "2 ^ 52 \<le> L * 2 ^ 52" using assms(2) by simp
  have hi: "L * 2 ^ 52 < 2 ^ 53" using assms(3) by simp
  have "fl L = of_int m / 2 ^ 52"
    unfolding m_def using pos lo hi by (rule fl_eval) simp
  with assms(1) have L: "L = of_int m / 2 ^ 52"
    by (simp add: is_f64_def)
  then have "real_of_int m = L * 4503599627370496"
    by simp
  with assms(2,3) have "4503599627370496 < real_of_int m" "real_of_int m < 4503599627370500"
    by simp_all
  then have "4503599627370496 < m" "m < 4503599627370500"
    by linarith+
  then have "m = 4503599627370497 \<or> m = 4503599627370498 \<or> m = 4503599627370499"
    by linarith
  with L show ?thesis
    by auto
qed

lemma drain_gt_recharge_near:
  assumes "L = 4503599627370497 / 4503599627370496 \<or>
           L = 4503599627370498 / 4503599627370496 \<or>
           L = 4503599627370499 / 4503599627370496"
  shows "calculateRechargeMultiplier_f64 L < calculateDrainMultiplier_f64 L"
proof -
  have "calculateRechargeMultiplier_f64 (4503599627370497 / 4503599627370496)
      < calculateDrainMultiplier_f64 (4503599627370497 / 4503599627370496)"
    by (simp add: calculateRechargeMultiplier_f64_def calculateDrainMultiplier_f64_def
        add64_def sub64_def mul64_def DRAIN_GROWTH_f64_value RECHARGE_GROWTH_f64_value fl_values)
  moreover have "calculateRechargeMultiplier_f64 (4503599627370498 / 4503599627370496)
      < calculateDrainMultiplier_f64 (4503599627370498 / 4503599627370496)"
    by (simp add: calculateRechargeMultiplier_f64_def calculateDrainMultiplier_f64_def
        add64_def sub64_def mul64_def DRAIN_GROWTH_f64_value RECHARGE_GROWTH_f64_value fl_values)
  moreover have "calculateRechargeMultiplier_f64 (4503599627370499 / 4503599627370496)
      < calculateDrainMultiplier_f64 (4503599627370499 / 4503599627370496)"
    by (simp add: calculateRechargeMultiplier_f64_def calculateDrainMultiplier_f64_def
        add64_def sub64_def mul64_def DRAIN_GROWTH_f64_value RECHARGE_GROWTH_f64_value fl_values)
  ultimately show ?thesis
    using assms by blast
qed

lemma drain_gt_recharge:
  assumes "is_f64 L" "1 < L"
  shows "calculateRechargeMultiplier_f64 L < calculateDrainMultiplier_f64 L"
proof (cases "1 + 1 / 2 ^ 50 \<le> L")
  case True
  then show ?thesis by (rule drain_gt_recharge_far)
next
  case False
  then have "L < 1 + 1 / 2 ^ 50" by simp
  with assms have "L = 4503599627370497 / 4503599627370496 \<or>
         L = 4503599627370498 / 4503599627370496 \<or>
         L = 4503599627370499 / 4503599627370496"
    by (rule near_one_cases)
  then show ?thesis by (rule drain_gt_recharge_near)
qed

lemma is_f64_2: "is_f64 2"
  using fl_eval [of 2 51] by (simp add: is_f64_def rne_def)

subsection \<open>The net change and the combined step in binary64 arithmetic\<close>

lemma mul64_neg_base:
  "mul64 (mul64 (- 1) m) dt = - mul64 (mul64 1 m) dt"
  by (simp add: mul64_def fl_minus)

lemma gap_drain_only:
  assumes "0 \<le> fl (h - D)" "fl (h - D) \<le> 100"
  shows "\<bar>- D - (fl (h - D) - h)\<bar> \<le> max 100 \<bar>h\<bar> / 2 ^ 50"
proof -
  define tau :: real where "tau = 1 / 2 ^ 1075"
  have e: "\<bar>fl (h - D) - (h - D)\<bar> \<le> \<bar>h - D\<bar> / 9007199254740992 + tau"
    using fl_error [of "h - D"] by (simp add: tau_def)
  have t: "tau \<le> 1 / 9007199254740992"
    by (simp add: tau_def)
  have "\<bar>h - D\<bar> \<le> 102"
    using e t assms by argo
  with e t have "\<bar>- D - (fl (h - D) - h)\<bar> \<le> 100 / 1125899906842624"
    by argo
  also have "\<dots> \<le> max 100 \<bar>h\<bar> / 1125899906842624"
    by simp
  finally show ?thesis
    by simp
qed

lemma gap_drain_recharge:
  assumes "0 \<le> fl (h - D)" "fl (h - D) \<le> 100"
    and "0 \<le> fl (fl (h - D) + R)" "fl (fl (h - D) + R) \<le> 100"
  shows "\<bar>fl (- D + R) - (fl (fl (h - D) + R) - h)\<bar> \<le> max 100 \<bar>h\<bar> / 2 ^ 50"
proof -
  define x1 where "x1 = fl (h - D)"
  define x2 where "x2 = fl (x1 + R)"
  define c where "c = fl (- D + R)"
  define B where "B = max 100 \<bar>h\<bar>"
  define tau :: real where "tau = 1 / 2 ^ 1075"
  have t: "tau \<le> 1 / 9007199254740992"
    by (simp add: tau_def)
  have e1: "\<bar>x1 - (h - D)\<bar> \<le> \<bar>h - D\<bar> / 9007199254740992 + tau"
    unfolding x1_def using fl_error [of "h - D"] by (simp add: tau_def)
  have e2: "\<bar>x2 - (x1 + R)\<bar> \<le> \<bar>x1 + R\<bar> / 9007199254740992 + tau"
    unfolding x2_def using fl_error [of "x1 + R"] by (simp add: tau_def)
  have e3: "\<bar>c - (- D + R)\<bar> \<le> \<bar>- D + R\<bar> / 9007199254740992 + tau"
    unfolding c_def using fl_error [of "- D + R"] by (simp add: tau_def)
  have b1: "0 \<le> x1" "x1 \<le> 100" "0 \<le> x2" "x2 \<le> 100"
    using assms by (simp_all add: x1_def x2_def)
  have B: "100 \<le> B" "\<bar>h\<bar> \<le> B"
    by (simp_all add: B_def)
  have m1: "\<bar>h - D\<bar> \<le> 102"
    using e1 t b1 by argo
  have m2: "\<bar>x1 + R\<bar> \<le> 102"
    using e2 t b1 by argo
  have m3: "\<bar>- D + R\<bar> \<le> 304 + B"
    using m1 m2 b1 B by argo
  have d1: "\<bar>x1 - (h - D)\<bar> \<le> 103 / 9007199254740992"
    using e1 t m1 by argo
  have d2: "\<bar>x2 - (x1 + R)\<bar> \<le> 103 / 9007199254740992"
    using e2 t m2 by argo
  have d3: "\<bar>c - (- D + R)\<bar> \<le> (305 + B) / 9007199254740992"
    using e3 t m3 by argo
  have "\<bar>c - (x2 - h)\<bar> \<le> (511 + B) / 9007199254740992"
    using d1 d2 d3 by argo
  also have "\<dots> \<le> B / 1125899906842624"
    using B(1) by simp
  finally show ?thesis
    by (simp add: c_def x2_def x1_def B_def)
qed

lemma rate_hunger: "rechargeRateFor ''hunger'' zone = (if zone = Some ''field'' then Some 6 else None)"
  by (cases zone) (simp_all add: rechargeRateFor_def BASE_RECHARGE_def)

lemma net_hunger:
  "calculateNetNeedChange_f64 ''hunger'' zone lv dt =
     Some (if zone = Some ''field''
           then add64 (- mul64 (mul64 1 (calculateDrainMultiplier_f64 lv)) dt)
                  (mul64 (mul64 6 (calculateRechargeMultiplier_f64 lv)) dt)
           else - mul64 (mul64 1 (calculateDrainMultiplier_f64 lv)) dt)"
  by (cases zone)
     (simp_all add: calculateNetNeedChange_f64_def getField_def BASE_DRAIN_def zoneToNeed_def
        BASE_RECHARGE_def Let_def mul64_neg_base)

lemma upd_hunger:
  "hunger (updateNeeds_f64 nv zone lv dt) =
     (if zone = Some ''field''
      then clamp (add64
             (clamp (sub64 (hunger nv) (mul64 (mul64 1 (calculateDrainMultiplier_f64 lv)) dt)) 0 100)
             (mul64 (mul64 6 (calculateRechargeMultiplier_f64 lv)) dt)) 0 100
      else clamp (sub64 (hunger nv) (mul64 (mul64 1 (calculateDrainMultiplier_f64 lv)) dt)) 0 100)"
  by (simp add: updateNeeds_f64_def applyDrain_f64_def applyRecharge_f64_def BASE_DRAIN_def
      BASE_RECHARGE_at_simps Let_def)

lemma gap_hunger:
  assumes "noClampCrossed_f64 nv ''hunger'' zone lv dt"
  shows "\<exists>c a. calculateNetNeedChange_f64 ''hunger'' zone lv dt = Some c \<and>
           getField (updateNeeds_f64 nv zone lv dt) ''hunger'' = Some a \<and>
           \<bar>c - (a - hunger nv)\<bar> \<le> max 100 \<bar>hunger nv\<bar> / 2 ^ 50"
proof -
  define D where "D = mul64 (mul64 1 (calculateDrainMultiplier_f64 lv)) dt"
  define R where "R = mul64 (mul64 6 (calculateRechargeMultiplier_f64 lv)) dt"
  from assms have b: "0 \<le> fl (hunger nv - D)" "fl (hunger nv - D) \<le> 100"
    by (simp_all add: noClampCrossed_f64_def getField_def BASE_DRAIN_def Let_def D_def sub64_def)
  have d: "clamp (fl (hunger nv - D)) 0 100 = fl (hunger nv - D)"
    using b by (rule clamp_id)
  show ?thesis
  proof (cases "zone = Some ''field''")
    case True
    with assms have r: "0 \<le> fl (fl (hunger nv - D) + R)" "fl (fl (hunger nv - D) + R) \<le> 100"
      by (simp_all add: noClampCrossed_f64_def getField_def BASE_DRAIN_def Let_def rate_hunger
          D_def R_def sub64_def add64_def)
    have e: "clamp (fl (fl (hunger nv - D) + R)) 0 100 = fl (fl (hunger nv - D) + R)"
      using r by (rule clamp_id)
    have "\<bar>fl (- D + R) - (fl (fl (hunger nv - D) + R) - hunger nv)\<bar> \<le> max 100 \<bar>hunger nv\<bar> / 2 ^ 50"
      using b r by (rule gap_drain_recharge)
    moreover have "calculateNetNeedChange_f64 ''hunger'' zone lv dt = Some (fl (- D + R))"
      using True by (simp add: net_hunger add64_def D_def R_def)
    moreover have "getField (updateNeeds_f64 nv zone lv dt) ''hunger'' = Some (fl (fl (hunger nv - D) + R))"
      using True d e by (simp add: getField_def upd_hunger add64_def sub64_def D_def [symmetric] R_def [symmetric])
    ultimately show ?thesis
      by blast
  next
    case False
    have "\<bar>- D - (fl (hunger nv - D) - hunger nv)\<bar> \<le> max 100 \<bar>hunger nv\<bar> / 2 ^ 50"
      using b by (rule gap_drain_only)
    moreover have "calculateNetNeedChange_f64 ''hunger'' zone lv dt = Some (- D)"
      using False by (simp add: net_hunger D_def)
    moreover have "getField (updateNeeds_f64 nv zone lv dt) ''hunger'' = Some (fl (hunger nv - D))"
      using False d by (simp add: getField_def upd_hunger sub64_def D_def [symmetric])
    ultimately show ?thesis
      by blast
  qed
qed

lemma rate_thirst: "rechargeRateFor ''thirst'' zone = (if zone = Some ''lake'' then Some 6 else None)"
  by (cases zone) (simp_all add: rechargeRateFor_def BASE_RECHARGE_def)

lemma net_thirst:
  "calculateNetNeedChange_f64 ''thirst'' zone lv dt =
     Some (if zone = Some ''lake''
           then add64 (- mul64 (mul64 1 (calculateDrainMultiplier_f64 lv)) dt)
                  (mul64 (mul64 6 (calculateRechargeMultiplier_f64 lv)) dt)
           else - mul64 (mul64 1 (calculateDrainMultiplier_f64 lv)) dt)"
  by (cases zone)
     (simp_all add: calculateNetNeedChange_f64_def getField_def BASE_DRAIN_def zoneToNeed_def
        BASE_RECHARGE_def Let_def mul64_neg_base)

lemma upd_thirst:
  "thirst (updateNeeds_f64 nv zone lv dt) =
     (if zone = Some ''lake''
      then clamp (add64
             (clamp (sub64 (thirst nv) (mul64 (mul64 1 (calculateDrainMultiplier_f64 lv)) dt)) 0 100)
             (mul64 (mul64 6 (calculateRechargeMultiplier_f64 lv)) dt)) 0 100
      else clamp (sub64 (thirst nv) (mul64 (mul64 1 (calculateDrainMultiplier_f64 lv)) dt)) 0 100)"
  by (simp add: updateNeeds_f64_def applyDrain_f64_def applyRecharge_f64_def BASE_DRAIN_def
      BASE_RECHARGE_at_simps Let_def)

lemma gap_thirst:
  assumes "noClampCrossed_f64 nv ''thirst'' zone lv dt"
  shows "\<exists>c a. calculateNetNeedChange_f64 ''thirst'' zone lv dt = Some c \<and>
           getField (updateNeeds_f64 nv zone lv dt) ''thirst'' = Some a \<and>
           \<bar>c - (a - thirst nv)\<bar> \<le> max 100 \<bar>thirst nv\<bar> / 2 ^ 50"
proof -
  define D where "D = mul64 (mul64 1 (calculateDrainMultiplier_f64 lv)) dt"
  define R where "R = mul64 (mul64 6 (calculateRechargeMultiplier_f64 lv)) dt"
  from assms have b: "0 \<le> fl (thirst nv - D)" "fl (thirst nv - D) \<le> 100"
    by (simp_all add: noClampCrossed_f64_def getField_def BASE_DRAIN_def Let_def D_def sub64_def)
  have d: "clamp (fl (thirst nv - D)) 0 100 = fl (thirst nv - D)"
    using b by (rule clamp_id)
  show ?thesis
  proof (cases "zone = Some ''lake''")
    case True
    with assms have r: "0 \<le> fl (fl (thirst nv - D) + R)" "fl (fl (thirst nv - D) + R) \<le> 100"
      by (simp_all add: noClampCrossed_f64_def getField_def BASE_DRAIN_def Let_def rate_thirst
          D_def R_def sub64_def add64_def)
    have e: "clamp (fl (fl (thirst nv - D) + R)) 0 100 = fl (fl (thirst nv - D) + R)"
      using r by (rule clamp_id)
    have "\<bar>fl (- D + R) - (fl (fl (thirst nv - D) + R) - thirst nv)\<bar> \<le> max 100 \<bar>thirst nv\<bar> / 2 ^ 50"
      using b r by (rule gap_drain_recharge)
    moreover have "calculateNetNeedChange_f64 ''thirst'' zone lv dt = Some (fl (- D + R))"
      using True by (simp add: net_thirst add64_def D_def R_def)
    moreover have "getField (updateNeeds_f64 nv zone lv dt) ''thirst'' = Some (fl (fl (thirst nv - D) + R))"
      using True d e by (simp add: getField_def upd_thirst add64_def sub64_def D_def [symmetric] R_def [symmetric])
    ultimately show ?thesis
      by blast
  next
    case False
    have "\<bar>- D - (fl (thirst nv - D) - thirst nv)\<bar> \<le> max 100 \<bar>thirst nv\<bar> / 2 ^ 50"
      using b by (rule gap_drain_only)
    moreover have "calculateNetNeedChange_f64 ''thirst'' zone lv dt = Some (- D)"
      using False by (simp add: net_thirst D_def)
    moreover have "getField (updateNeeds_f64 nv zone lv dt) ''thirst'' = Some (fl (thirst nv - D))"
      using False d by (simp add: getField_def upd_thirst sub64_def D_def [symmetric])
    ultimately show ?thesis
      by blast
  qed
qed

lemma rate_energy: "rechargeRateFor ''energy'' zone = (if zone = Some ''barn'' then Some 8 else None)"
  by (cases zone) (simp_all add: rechargeRateFor_def BASE_RECHARGE_def)

lemma net_energy:
  "calculateNetNeedChange_f64 ''energy'' zone lv dt =
     Some (if zone = Some ''barn''
           then add64 (- mul64 (mul64 1 (calculateDrainMultiplier_f64 lv)) dt)
                  (mul64 (mul64 8 (calculateRechargeMultiplier_f64 lv)) dt)
           else - mul64 (mul64 1 (calculateDrainMultiplier_f64 lv)) dt)"
  by (cases zone)
     (simp_all add: calculateNetNeedChange_f64_def getField_def BASE_DRAIN_def zoneToNeed_def
        BASE_RECHARGE_def Let_def mul64_neg_base)

lemma upd_energy:
  "energy (updateNeeds_f64 nv zone lv dt) =
     (if zone = Some ''barn''
      then clamp (add64
             (clamp (sub64 (energy nv) (mul64 (mul64 1 (calculateDrainMultiplier_f64 lv)) dt)) 0 100)
             (mul64 (mul64 8 (calculateRechargeMultiplier_f64 lv)) dt)) 0 100
      else clamp (sub64 (energy nv) (mul64 (mul64 1 (calculateDrainMultiplier_f64 lv)) dt)) 0 100)"
  by (simp add: updateNeeds_f64_def applyDrain_f64_def applyRecharge_f64_def BASE_DRAIN_def
      BASE_RECHARGE_at_simps Let_def)

lemma gap_energy:
  assumes "noClampCrossed_f64 nv ''energy'' zone lv dt"
  shows "\<exists>c a. calculateNetNeedChange_f64 ''energy'' zone lv dt = Some c \<and>
           getField (updateNeeds_f64 nv zone lv dt) ''energy'' = Some a \<and>
           \<bar>c - (a - energy nv)\<bar> \<le> max 100 \<bar>energy nv\<bar> / 2 ^ 50"
proof -
  define D where "D = mul64 (mul64 1 (calculateDrainMultiplier_f64 lv)) dt"
  define R where "R = mul64 (mul64 8 (calculateRechargeMultiplier_f64 lv)) dt"
  from assms have b: "0 \<le> fl (energy nv - D)" "fl (energy nv - D) \<le> 100"
    by (simp_all add: noClampCrossed_f64_def getField_def BASE_DRAIN_def Let_def D_def sub64_def)
  have d: "clamp (fl (energy nv - D)) 0 100 = fl (energy nv - D)"
    using b by (rule clamp_id)
  show ?thesis
  proof (cases "zone = Some ''barn''")
    case True
    with assms have r: "0 \<le> fl (fl (energy nv - D) + R)" "fl (fl (energy nv - D) + R) \<le> 100"
      by (simp_all add: noClampCrossed_f64_def getField_def BASE_DRAIN_def Let_def rate_energy
          D_def R_def sub64_def add64_def)
    have e: "clamp (fl (fl (energy nv - D) + R)) 0 100 = fl (fl (energy nv - D) + R)"
      using r by (rule clamp_id)
    have "\<bar>fl (- D + R) - (fl (fl (energy nv - D) + R) - energy nv)\<bar> \<le> max 100 \<bar>energy nv\<bar> / 2 ^ 50"
      using b r by (rule gap_drain_recharge)
    moreover have "calculateNetNeedChange_f64 ''energy'' zone lv dt = Some (fl (- D + R))"
      using True by (simp add: net_energy add64_def D_def R_def)
    moreover have "getField (updateNeeds_f64 nv zone lv dt) ''energy'' = Some (fl (fl (energy nv - D) + R))"
      using True d e by (simp add: getField_def upd_energy add64_def sub64_def D_def [symmetric] R_def [symmetric])
    ultimately show ?thesis
      by blast
  next
    case False
    have "\<bar>- D - (fl (energy nv - D) - energy nv)\<bar> \<le> max 100 \<bar>energy nv\<bar> / 2 ^ 50"
      using b by (rule gap_drain_only)
    moreover have "calculateNetNeedChange_f64 ''energy'' zone lv dt = Some (- D)"
      using False by (simp add: net_energy D_def)
    moreover have "getField (updateNeeds_f64 nv zone lv dt) ''energy'' = Some (fl (energy nv - D))"
      using False d by (simp add: getField_def upd_energy sub64_def D_def [symmetric])
    ultimately show ?thesis
      by blast
  qed
qed

lemma rate_fun: "rechargeRateFor ''fun'' zone = (if zone = Some ''play'' then Some 6 else None)"
  by (cases zone) (simp_all add: rechargeRateFor_def BASE_RECHARGE_def)

lemma net_fun:
  "calculateNetNeedChange_f64 ''fun'' zone lv dt =
     Some (if zone = Some ''play''
           then add64 (- mul64 (mul64 1 (calculateDrainMultiplier_f64 lv)) dt)
                  (mul64 (mul64 6 (calculateRechargeMultiplier_f64 lv)) dt)
           else - mul64 (mul64 1 (calculateDrainMultiplier_f64 lv)) dt)"
  by (cases zone)
     (simp_all add: calculateNetNeedChange_f64_def getField_def BASE_DRAIN_def zoneToNeed_def
        BASE_RECHARGE_def Let_def mul64_neg_base)

lemma upd_fun:
  "fun (updateNeeds_f64 nv zone lv dt) =
     (if zone = Some ''play''
      then clamp (add64
             (clamp (sub64 (fun nv) (mul64 (mul64 1 (calculateDrainMultiplier_f64 lv)) dt)) 0 100)
             (mul64 (mul64 6 (calculateRechargeMultiplier_f64 lv)) dt)) 0 100
      else clamp (sub64 (fun nv) (mul64 (mul64 1 (calculateDrainMultiplier_f64 lv)) dt)) 0 100)"
  by (simp add: updateNeeds_f64_def applyDrain_f64_def applyRecharge_f64_def BASE_DRAIN_def
      BASE_RECHARGE_at_simps Let_def)

lemma gap_fun:
  assumes "noClampCrossed_f64 nv ''fun'' zone lv dt"
  shows "\<exists>c a. calculateNetNeedChange_f64 ''fun'' zone lv dt = Some c \<and>
           getField (updateNeeds_f64 nv zone lv dt) ''fun'' = Some a \<and>
           \<bar>c - (a - fun nv)\<bar> \<le> max 100 \<bar>fun nv\<bar> / 2 ^ 50"
proof -
  define D where "D = mul64 (mul64 1 (calculateDrainMultiplier_f64 lv)) dt"
  define R where "R = mul64 (mul64 6 (calculateRechargeMultiplier_f64 lv)) dt"
  from assms have b: "0 \<le> fl (fun nv - D)" "fl (fun nv - D) \<le> 100"
    by (simp_all add: noClampCrossed_f64_def getField_def BASE_DRAIN_def Let_def D_def sub64_def)
  have d: "clamp (fl (fun nv - D)) 0 100 = fl (fun nv - D)"
    using b by (rule clamp_id)
  show ?thesis
  proof (cases "zone = Some ''play''")
    case True
    with assms have r: "0 \<le> fl (fl (fun nv - D) + R)" "fl (fl (fun nv - D) + R) \<le> 100"
      by (simp_all add: noClampCrossed_f64_def getField_def BASE_DRAIN_def Let_def rate_fun
          D_def R_def sub64_def add64_def)
    have e: "clamp (fl (fl (fun nv - D) + R)) 0 100 = fl (fl (fun nv - D) + R)"
      using r by (rule clamp_id)
    have "\<bar>fl (- D + R) - (fl (fl (fun nv - D) + R) - fun nv)\<bar> \<le> max 100 \<bar>fun nv\<bar> / 2 ^ 50"
      using b r by (rule gap_drain_recharge)
    moreover have "calculateNetNeedChange_f64 ''fun'' zone lv dt = Some (fl (- D + R))"
      using True by (simp add: net_fun add64_def D_def R_def)
    moreover have "getField (updateNeeds_f64 nv zone lv dt) ''fun'' = Some (fl (fl (fun nv - D) + R))"
      using True d e by (simp add: getField_def upd_fun add64_def sub64_def D_def [symmetric] R_def [symmetric])
    ultimately show ?thesis
      by blast
  next
    case False
    have "\<bar>- D - (fl (fun nv - D) - fun nv)\<bar> \<le> max 100 \<bar>fun nv\<bar> / 2 ^ 50"
      using b by (rule gap_drain_only)
    moreover have "calculateNetNeedChange_f64 ''fun'' zone lv dt = Some (- D)"
      using False by (simp add: net_fun D_def)
    moreover have "getField (updateNeeds_f64 nv zone lv dt) ''fun'' = Some (fl (fun nv - D))"
      using False d by (simp add: getField_def upd_fun sub64_def D_def [symmetric])
    ultimately show ?thesis
      by blast
  qed
qed

lemma needType_cases:
  assumes "noClampCrossed_f64 nv needType zone lv dt"
  shows "needType = ''hunger'' \<or> needType = ''thirst'' \<or> needType = ''energy'' \<or>
         needType = ''fun''"
proof (rule ccontr)
  assume "\<not> ?thesis"
  then have "getField nv needType = None"
    by (simp add: getField_def)
  with assms show False
    by (simp add: noClampCrossed_f64_def)
qed

lemma example_noClamp:
  "noClampCrossed_f64 \<lparr>hunger = 50, thirst = 50, energy = 50, fun = 50\<rparr> ''thirst'' (Some ''lake'') 1 (fl 0.1)"
  by (simp add: noClampCrossed_f64_def getField_def BASE_DRAIN_def rechargeRateFor_def
        BASE_RECHARGE_def Let_def calculateDrainMultiplier_f64_def calculateRechargeMultiplier_f64_def
        DRAIN_GROWTH_f64_value RECHARGE_GROWTH_f64_value add64_def sub64_def mul64_def
        fl_zero fl_minus fl_values)

lemma example_net:
  "calculateNetNeedChange_f64 ''thirst'' (Some ''lake'') 1 (fl 0.1)
     = Some (4503599627370497 / 9007199254740992)"
  by (simp add: calculateNetNeedChange_f64_def getField_def BASE_DRAIN_def zoneToNeed_def
        BASE_RECHARGE_def Let_def calculateDrainMultiplier_f64_def calculateRechargeMultiplier_f64_def
        DRAIN_GROWTH_f64_value RECHARGE_GROWTH_f64_value add64_def sub64_def mul64_def
        fl_zero fl_minus fl_values)

lemma example_step:
  "updateNeeds_f64 \<lparr>hunger = 50, thirst = 50, energy = 50, fun = 50\<rparr> (Some ''lake'') 1 (fl 0.1)
     = \<lparr>hunger = 7022800668930867 / 140737488355328, thirst = 101 / 2,
        energy = 7022800668930867 / 140737488355328,
        fun = 7022800668930867 / 140737488355328\<rparr>"
  by (simp add: updateNeeds_f64_def applyDrain_f64_def applyRecharge_f64_def BASE_DRAIN_def
        BASE_RECHARGE_at_simps clamp_def Let_def calculateDrainMultiplier_f64_def calculateRechargeMultiplier_f64_def
        DRAIN_GROWTH_f64_value RECHARGE_GROWTH_f64_value add64_def sub64_def mul64_def
        fl_zero fl_minus fl_values)

section \<open>The claims\<close>

text \<open>
  C1. For every needs vector whose four fields are each in \<open>[0, 100]\<close>, every zone
  (no zone included), every level and every \<open>dt \<ge> 0\<close>, each of \<open>applyDrain\<close>,
  \<open>applyRecharge\<close> and the combined step \<open>updateNeeds\<close> returns a needs vector whose four
  fields are each in \<open>[0, 100]\<close>.
\<close>

theorem needs_stay_in_range:
  assumes "inRange nv" and "0 \<le> dt"
  shows "inRange (applyDrain nv lv dt) \<and>
         inRange (applyRecharge nv zone lv dt) \<and>
         inRange (updateNeeds nv zone lv dt)"
proof -
  have d: "inRange (applyDrain nv lv dt)"
    by (rule inRange_applyDrain)
  have r: "inRange (applyRecharge nv zone lv dt)"
    using assms(1) by (rule inRange_applyRecharge)
  have u: "inRange (updateNeeds nv zone lv dt)"
    unfolding updateNeeds_def Let_def using d by (rule inRange_applyRecharge)
  from d r u show ?thesis by simp
qed

theorem needs_stay_in_range_witness:
  "inRange \<lparr>hunger = 50, thirst = 0, energy = 100, fun = 99\<rparr> \<and> (0::real) \<le> 10 \<and>
   inRange (applyDrain \<lparr>hunger = 50, thirst = 0, energy = 100, fun = 99\<rparr> 3 10) \<and>
   inRange (applyRecharge \<lparr>hunger = 50, thirst = 0, energy = 100, fun = 99\<rparr> (Some ''play'') 3 10) \<and>
   inRange (updateNeeds \<lparr>hunger = 50, thirst = 0, energy = 100, fun = 99\<rparr> (Some ''play'') 3 10)"
proof -
  have h: "inRange \<lparr>hunger = 50, thirst = 0, energy = 100, fun = 99\<rparr>"
    by (simp add: inRange_def)
  have k: "(0::real) \<le> 10"
    by simp
  from needs_stay_in_range [OF h k, of 3 "Some ''play''"] h k show ?thesis
    by simp
qed

text \<open>
  C2, as stated: for every needs vector, level and \<open>dt \<ge> 0\<close>, every field of the result of
  \<open>applyDrain\<close> is at most the input field. A field of \<open>-5\<close> comes back as \<open>0\<close>, and at
  level \<open>-1\<close> the drain multiplier is \<open>-0.6\<close>, so a field of \<open>50\<close> comes back as \<open>50.6\<close>.
\<close>

theorem applyDrain_order_counterexample:
  "hunger (applyDrain \<lparr>hunger = - 5, thirst = 50, energy = 50, fun = 50\<rparr> 1 1) = 0 \<and>
   \<not> fieldwise_le (applyDrain \<lparr>hunger = - 5, thirst = 50, energy = 50, fun = 50\<rparr> 1 1)
       \<lparr>hunger = - 5, thirst = 50, energy = 50, fun = 50\<rparr> \<and>
   hunger (applyDrain \<lparr>hunger = 50, thirst = 50, energy = 50, fun = 50\<rparr> (- 1) 1) = 50.6 \<and>
   \<not> fieldwise_le (applyDrain \<lparr>hunger = 50, thirst = 50, energy = 50, fun = 50\<rparr> (- 1) 1)
       \<lparr>hunger = 50, thirst = 50, energy = 50, fun = 50\<rparr>"
  by (simp add: fieldwise_le_def applyDrain_def Let_def clamp_def BASE_DRAIN_def
      calculateDrainMultiplier_def DRAIN_GROWTH_def)

text \<open>
  C2, amended: for every needs vector, level and \<open>dt\<close>, \<open>applyDrain\<close> decreases each of the
  four fields by \<open>1.0 \<times> drainMultiplier(level) \<times> dt\<close> and clamps each result to \<open>[0, 100]\<close>
  on its own, so every field of the result is in \<open>[0, 100]\<close>. For \<open>dt \<ge> 0\<close> and a level of
  at least \<open>-0.25\<close> (the levels whose drain multiplier is not negative, among them every
  level from 1 on), every field of the result is at most the input field exactly when
  every input field is at least \<open>0\<close>.
\<close>

theorem applyDrain_formula_range_order:
  "applyDrain nv lv dt =
     \<lparr>hunger = max 0 (min 100 (hunger nv - 1.0 * (1 + (lv - 1) * 0.80) * dt)),
      thirst = max 0 (min 100 (thirst nv - 1.0 * (1 + (lv - 1) * 0.80) * dt)),
      energy = max 0 (min 100 (energy nv - 1.0 * (1 + (lv - 1) * 0.80) * dt)),
      fun = max 0 (min 100 (fun nv - 1.0 * (1 + (lv - 1) * 0.80) * dt))\<rparr> \<and>
   inRange (applyDrain nv lv dt) \<and>
   (- 1 / 4 \<le> lv \<and> 0 \<le> dt \<longrightarrow>
      fieldwise_le (applyDrain nv lv dt) nv = nonNegative nv)"
proof -
  have eq: "applyDrain nv lv dt =
     \<lparr>hunger = max 0 (min 100 (hunger nv - 1.0 * (1 + (lv - 1) * 0.80) * dt)),
      thirst = max 0 (min 100 (thirst nv - 1.0 * (1 + (lv - 1) * 0.80) * dt)),
      energy = max 0 (min 100 (energy nv - 1.0 * (1 + (lv - 1) * 0.80) * dt)),
      fun = max 0 (min 100 (fun nv - 1.0 * (1 + (lv - 1) * 0.80) * dt))\<rparr>"
    by (simp add: applyDrain_def Let_def clamp_def BASE_DRAIN_def
        calculateDrainMultiplier_def DRAIN_GROWTH_def)
  have le: "fieldwise_le (applyDrain nv lv dt) nv = nonNegative nv" if "- 1 / 4 \<le> lv" "0 \<le> dt"
  proof -
    have "0 \<le> 1 + (lv - 1) * (4 / 5)"
      using that(1) by argo
    then have "0 \<le> calculateDrainMultiplier lv"
      by (simp add: calculateDrainMultiplier_def DRAIN_GROWTH_def)
    then have d: "0 \<le> calculateDrainMultiplier lv * dt"
      using that(2) by simp
    have f: "min 100 (h - calculateDrainMultiplier lv * dt) \<le> h" for h
      using d by (simp add: min_def)
    show ?thesis
      by (simp add: fieldwise_le_def nonNegative_def applyDrain_def Let_def clamp_def
          BASE_DRAIN_def f)
  qed
  from eq inRange_applyDrain le show ?thesis by blast
qed

theorem applyDrain_formula_range_order_witness:
  "- 1 / 4 \<le> (2::real) \<and> (0::real) \<le> 0.5 \<and>
   nonNegative \<lparr>hunger = 50, thirst = 0.5, energy = 100, fun = 0\<rparr> \<and>
   applyDrain \<lparr>hunger = 50, thirst = 0.5, energy = 100, fun = 0\<rparr> 2 0.5 =
     \<lparr>hunger = 49.1, thirst = 0, energy = 99.1, fun = 0\<rparr> \<and>
   inRange (applyDrain \<lparr>hunger = 50, thirst = 0.5, energy = 100, fun = 0\<rparr> 2 0.5) \<and>
   fieldwise_le (applyDrain \<lparr>hunger = 50, thirst = 0.5, energy = 100, fun = 0\<rparr> 2 0.5)
     \<lparr>hunger = 50, thirst = 0.5, energy = 100, fun = 0\<rparr>"
proof -
  have h: "nonNegative \<lparr>hunger = 50, thirst = 0.5, energy = 100, fun = 0\<rparr>"
    by (simp add: nonNegative_def)
  from applyDrain_formula_range_order
         [of "\<lparr>hunger = 50, thirst = 0.5, energy = 100, fun = 0\<rparr>" 2 "0.5"] h
  show ?thesis
    by (simp add: inRange_def fieldwise_le_def)
qed

text \<open>
  C3. With a recognised zone, \<open>applyRecharge\<close> sets exactly the need mapped to the zone
  (lake to thirst at base 6, field to hunger at base 6, barn to energy at base 8, play to
  fun at base 6) to its old value plus \<open>base \<times> rechargeMultiplier(level) \<times> dt\<close>, clamped to
  \<open>[0, 100]\<close>, and returns the other three fields unchanged. With no zone, or with any tag
  that is not one of the four, it returns all four fields unchanged.
\<close>

theorem applyRecharge_frame:
  "(zone = Some ''lake'' \<longrightarrow> applyRecharge nv zone lv dt =
      nv\<lparr>thirst := max 0 (min 100 (thirst nv + 6 * (1 + (lv - 1) * 0.30) * dt))\<rparr>) \<and>
   (zone = Some ''field'' \<longrightarrow> applyRecharge nv zone lv dt =
      nv\<lparr>hunger := max 0 (min 100 (hunger nv + 6 * (1 + (lv - 1) * 0.30) * dt))\<rparr>) \<and>
   (zone = Some ''barn'' \<longrightarrow> applyRecharge nv zone lv dt =
      nv\<lparr>energy := max 0 (min 100 (energy nv + 8 * (1 + (lv - 1) * 0.30) * dt))\<rparr>) \<and>
   (zone = Some ''play'' \<longrightarrow> applyRecharge nv zone lv dt =
      nv\<lparr>fun := max 0 (min 100 (fun nv + 6 * (1 + (lv - 1) * 0.30) * dt))\<rparr>) \<and>
   (\<not> recognized zone \<longrightarrow> applyRecharge nv zone lv dt = nv)"
  by (simp add: applyRecharge_def Let_def clamp_def BASE_RECHARGE_at_simps recognized_def
      calculateRechargeMultiplier_def RECHARGE_GROWTH_def)

theorem applyRecharge_frame_witness:
  "applyRecharge \<lparr>hunger = 50, thirst = 50, energy = 50, fun = 50\<rparr> (Some ''lake'') 1 0.1 =
     \<lparr>hunger = 50, thirst = 50.6, energy = 50, fun = 50\<rparr> \<and>
   applyRecharge \<lparr>hunger = 50, thirst = 50, energy = 50, fun = 50\<rparr> (Some ''field'') 1 0.1 =
     \<lparr>hunger = 50.6, thirst = 50, energy = 50, fun = 50\<rparr> \<and>
   applyRecharge \<lparr>hunger = 50, thirst = 50, energy = 50, fun = 50\<rparr> (Some ''barn'') 1 0.1 =
     \<lparr>hunger = 50, thirst = 50, energy = 50.8, fun = 50\<rparr> \<and>
   applyRecharge \<lparr>hunger = 50, thirst = 50, energy = 50, fun = 99.9\<rparr> (Some ''play'') 1 0.1 =
     \<lparr>hunger = 50, thirst = 50, energy = 50, fun = 100\<rparr> \<and>
   \<not> recognized None \<and>
   applyRecharge \<lparr>hunger = 50, thirst = 50, energy = 50, fun = 50\<rparr> None 1 0.1 =
     \<lparr>hunger = 50, thirst = 50, energy = 50, fun = 50\<rparr> \<and>
   \<not> recognized (Some ''cave'') \<and>
   applyRecharge \<lparr>hunger = 50, thirst = 50, energy = 50, fun = 50\<rparr> (Some ''cave'') 1 0.1 =
     \<lparr>hunger = 50, thirst = 50, energy = 50, fun = 50\<rparr>"
  using
    applyRecharge_frame [of "Some ''lake''" "\<lparr>hunger = 50, thirst = 50, energy = 50, fun = 50\<rparr>" 1 "0.1"]
    applyRecharge_frame [of "Some ''field''" "\<lparr>hunger = 50, thirst = 50, energy = 50, fun = 50\<rparr>" 1 "0.1"]
    applyRecharge_frame [of "Some ''barn''" "\<lparr>hunger = 50, thirst = 50, energy = 50, fun = 50\<rparr>" 1 "0.1"]
    applyRecharge_frame [of "Some ''play''" "\<lparr>hunger = 50, thirst = 50, energy = 50, fun = 99.9\<rparr>" 1 "0.1"]
    applyRecharge_frame [of None "\<lparr>hunger = 50, thirst = 50, energy = 50, fun = 50\<rparr>" 1 "0.1"]
    applyRecharge_frame [of "Some ''cave''" "\<lparr>hunger = 50, thirst = 50, energy = 50, fun = 50\<rparr>" 1 "0.1"]
  by (simp add: recognized_def)

text \<open>
  C4, as stated: when no clamping boundary is crossed,
  \<open>calculateNetNeedChange(needType, zone, level, dt)\<close> equals
  \<open>updateNeeds(needs, zone, level, dt)[needType] - needs[needType]\<close>. With all needs at 50,
  the need thirst, the zone lake, level 1 and \<open>dt\<close> the number written \<open>0.1\<close>, no boundary
  is crossed, the net change is \<open>4503599627370497 / 2\<^sup>5\<^sup>3\<close> (printed
  \<open>0.5000000000000001\<close>), and the step moves thirst from \<open>50\<close> to \<open>50.5\<close>.
\<close>

theorem net_change_equality_counterexample:
  "noClampCrossed_f64 \<lparr>hunger = 50, thirst = 50, energy = 50, fun = 50\<rparr> ''thirst'' (Some ''lake'') 1 (fl 0.1) \<and>
   calculateNetNeedChange_f64 ''thirst'' (Some ''lake'') 1 (fl 0.1)
     = Some (4503599627370497 / 9007199254740992) \<and>
   needDelta (updateNeeds_f64 \<lparr>hunger = 50, thirst = 50, energy = 50, fun = 50\<rparr> (Some ''lake'') 1 (fl 0.1)) \<lparr>hunger = 50, thirst = 50, energy = 50, fun = 50\<rparr> ''thirst'' = Some (1 / 2) \<and>
   calculateNetNeedChange_f64 ''thirst'' (Some ''lake'') 1 (fl 0.1)
     \<noteq> needDelta (updateNeeds_f64 \<lparr>hunger = 50, thirst = 50, energy = 50, fun = 50\<rparr> (Some ''lake'') 1 (fl 0.1)) \<lparr>hunger = 50, thirst = 50, energy = 50, fun = 50\<rparr> ''thirst''"
  by (simp add: example_noClamp example_net example_step needDelta_def getField_def)

text \<open>
  C4, amended: for a need name, a zone, a level, a \<open>dt\<close> and a needs vector such that no
  clamping boundary is crossed for that need during the combined step,
  \<open>calculateNetNeedChange(needType, zone, level, dt)\<close> is a number, and it differs from
  \<open>updateNeeds(needs, zone, level, dt)[needType] - needs[needType]\<close> by at most
  \<open>max(100, |needs[needType]|) / 2\<^sup>5\<^sup>0\<close>: the two agree up to the rounding of binary64
  arithmetic.
\<close>

theorem net_change_close_to_step:
  assumes "noClampCrossed_f64 nv needType zone lv dt"
  shows "\<exists>c a b. calculateNetNeedChange_f64 needType zone lv dt = Some c \<and>
           getField (updateNeeds_f64 nv zone lv dt) needType = Some a \<and>
           getField nv needType = Some b \<and>
           \<bar>c - (a - b)\<bar> \<le> max 100 \<bar>b\<bar> / 2 ^ 50"
proof -
  from assms consider "needType = ''hunger''" | "needType = ''thirst''" | "needType = ''energy''"
    | "needType = ''fun''"
    using needType_cases by blast
  then show ?thesis
  proof cases
    case 1
    from assms have "noClampCrossed_f64 nv ''hunger'' zone lv dt" by (simp add: 1)
    from gap_hunger [OF this] show ?thesis unfolding 1 by (simp add: getField_def)
  next
    case 2
    from assms have "noClampCrossed_f64 nv ''thirst'' zone lv dt" by (simp add: 2)
    from gap_thirst [OF this] show ?thesis unfolding 2 by (simp add: getField_def)
  next
    case 3
    from assms have "noClampCrossed_f64 nv ''energy'' zone lv dt" by (simp add: 3)
    from gap_energy [OF this] show ?thesis unfolding 3 by (simp add: getField_def)
  next
    case 4
    from assms have "noClampCrossed_f64 nv ''fun'' zone lv dt" by (simp add: 4)
    from gap_fun [OF this] show ?thesis unfolding 4 by (simp add: getField_def)
  qed
qed

theorem net_change_close_to_step_witness:
  "noClampCrossed_f64 \<lparr>hunger = 50, thirst = 50, energy = 50, fun = 50\<rparr> ''thirst'' (Some ''lake'') 1 (fl 0.1) \<and>
   calculateNetNeedChange_f64 ''thirst'' (Some ''lake'') 1 (fl 0.1)
     = Some (4503599627370497 / 9007199254740992) \<and>
   getField (updateNeeds_f64 \<lparr>hunger = 50, thirst = 50, energy = 50, fun = 50\<rparr> (Some ''lake'') 1 (fl 0.1)) ''thirst'' = Some (101 / 2) \<and>
   getField \<lparr>hunger = 50, thirst = 50, energy = 50, fun = 50\<rparr> ''thirst'' = Some 50 \<and>
   \<bar>4503599627370497 / 9007199254740992 - (101 / 2 - 50)\<bar> \<le> max 100 \<bar>50::real\<bar> / 2 ^ 50"
proof -
  from net_change_close_to_step [OF example_noClamp]
  obtain c a b where
    "calculateNetNeedChange_f64 ''thirst'' (Some ''lake'') 1 (fl 0.1) = Some c"
    "getField (updateNeeds_f64 \<lparr>hunger = 50, thirst = 50, energy = 50, fun = 50\<rparr> (Some ''lake'') 1 (fl 0.1)) ''thirst'' = Some a"
    "getField \<lparr>hunger = 50, thirst = 50, energy = 50, fun = 50\<rparr> ''thirst'' = Some b"
    "\<bar>c - (a - b)\<bar> \<le> max 100 \<bar>b\<bar> / 2 ^ 50"
    by blast
  then have "c = 4503599627370497 / 9007199254740992" "a = 101 / 2" "b = 50"
    and "\<bar>c - (a - b)\<bar> \<le> max 100 \<bar>b\<bar> / 2 ^ 50"
    by (simp_all add: example_net example_step getField_def)
  then have "\<bar>4503599627370497 / 9007199254740992 - (101 / 2 - 50)\<bar>
      \<le> max 100 \<bar>50::real\<bar> / 2 ^ 50"
    by simp
  moreover have "getField (updateNeeds_f64 \<lparr>hunger = 50, thirst = 50, energy = 50, fun = 50\<rparr> (Some ''lake'') 1 (fl 0.1)) ''thirst''
      = Some (101 / 2)"
    by (simp add: example_step getField_def)
  moreover have "getField \<lparr>hunger = 50, thirst = 50, energy = 50, fun = 50\<rparr> ''thirst'' = Some 50"
    by (simp add: getField_def)
  ultimately show ?thesis
    using example_noClamp example_net by blast
qed

text \<open>
  C5. \<open>checkGameOver\<close> is true if and only if at least one of the four fields is at most
  \<open>0\<close>, and \<open>checkLevelComplete\<close> is true if and only if the level time is at most \<open>0\<close>.
\<close>

theorem terminal_conditions:
  "checkGameOver nv = (hunger nv \<le> 0 \<or> thirst nv \<le> 0 \<or> energy nv \<le> 0 \<or> fun nv \<le> 0) \<and>
   checkLevelComplete t = (t \<le> 0)"
  by (simp add: checkGameOver_def Object_values_def checkLevelComplete_def)

text \<open>
  C6. \<open>createNextLevelState\<close> returns a state with the level raised by one, all four needs
  at 100, the level time at 30, no status, \<open>eaten\<close> false, the monster at
  \<open>{x: -20, y: 50, chomp: false}\<close>, and the position of the unicorn as it was.
\<close>

theorem createNextLevelState_fields:
  "level (createNextLevelState s) = level s + 1 \<and>
   needs (createNextLevelState s) = \<lparr>hunger = 100, thirst = 100, energy = 100, fun = 100\<rparr> \<and>
   levelTime (createNextLevelState s) = 30 \<and>
   status (createNextLevelState s) = None \<and>
   eaten (createNextLevelState s) = False \<and>
   monster (createNextLevelState s) = \<lparr>MonsterState.x = - 20, MonsterState.y = 50, chomp = False\<rparr> \<and>
   x (createNextLevelState s) = x s \<and>
   y (createNextLevelState s) = y s"
  by (simp add: createNextLevelState_def LEVEL_TIME_def)

text \<open>
  C7, as stated: the monster of the state returned by \<open>createNextLevelState\<close> has its \<open>y\<close>
  equal to the \<open>y\<close> of the unicorn at the transition. On the state of the specification's
  own example, with the unicorn at \<open>(75, 80)\<close>, the monster is at \<open>y = 50\<close>.
\<close>

theorem next_level_monster_y_counterexample:
  "MonsterState.y (monster (createNextLevelState
      \<lparr>x = 75, y = 80, needs = \<lparr>hunger = 20, thirst = 30, energy = 40, fun = 50\<rparr>, level = 3,
       levelTime = 0, status = None, eaten = True,
       monster = \<lparr>MonsterState.x = 50, MonsterState.y = 50, chomp = True\<rparr>\<rparr>))
   \<noteq> y \<lparr>x = 75, y = 80, needs = \<lparr>hunger = 20, thirst = 30, energy = 40, fun = 50\<rparr>, level = 3,
       levelTime = 0, status = None, eaten = True,
       monster = \<lparr>MonsterState.x = 50, MonsterState.y = 50, chomp = True\<rparr>\<rparr>"
  by (simp add: createNextLevelState_def)

text \<open>
  C7, amended: the monster of the state returned by \<open>createNextLevelState\<close> has
  \<open>x = -20\<close>, \<open>chomp = false\<close> and the fixed \<open>y = 50\<close>, whatever the position of the
  unicorn; it is at the height of the unicorn exactly when the unicorn is at \<open>y = 50\<close>.
\<close>

theorem next_level_monster_fixed:
  "MonsterState.x (monster (createNextLevelState s)) = - 20 \<and>
   chomp (monster (createNextLevelState s)) = False \<and>
   MonsterState.y (monster (createNextLevelState s)) = 50 \<and>
   (MonsterState.y (monster (createNextLevelState s)) = y s) = (y s = 50)"
  by (auto simp add: createNextLevelState_def)

text \<open>
  C8. \<open>createMonsterChaseState\<close> returns a state with \<open>eaten\<close> true and the monster at
  \<open>{x: -20, y: the y of the input state, chomp: false}\<close>; needs, level, level time, status
  and the position of the unicorn are those of the input state. This holds for every
  state, whether or not a need has run out: the function does not look at the game-over
  condition.
\<close>

theorem createMonsterChaseState_frame:
  "eaten (createMonsterChaseState s) = True \<and>
   monster (createMonsterChaseState s) = \<lparr>MonsterState.x = - 20, MonsterState.y = y s, chomp = False\<rparr> \<and>
   needs (createMonsterChaseState s) = needs s \<and>
   level (createMonsterChaseState s) = level s \<and>
   levelTime (createMonsterChaseState s) = levelTime s \<and>
   status (createMonsterChaseState s) = status s \<and>
   x (createMonsterChaseState s) = x s \<and>
   y (createMonsterChaseState s) = y s"
  by (simp add: createMonsterChaseState_def)

text \<open>
  C9, as stated: consecutive levels differ by the constants \<open>0.80\<close> and \<open>0.30\<close>. In
  binary64 arithmetic the recharge multipliers of levels 3 and 2 differ by
  \<open>1351079888211149 / 2\<^sup>5\<^sup>2\<close> (printed \<open>0.30000000000000004\<close>), and the drain multipliers
  of levels 4 and 3 by \<open>1801439850948199 / 2\<^sup>5\<^sup>1\<close> (printed \<open>0.8000000000000003\<close>);
  neither is the constant, as a real or as the binary64 value of the literal.
\<close>

theorem multiplier_steps_counterexample:
  "calculateRechargeMultiplier_f64 3 - calculateRechargeMultiplier_f64 2
     = 1351079888211149 / 4503599627370496 \<and>
   calculateRechargeMultiplier_f64 3 - calculateRechargeMultiplier_f64 2 \<noteq> 0.30 \<and>
   sub64 (calculateRechargeMultiplier_f64 3) (calculateRechargeMultiplier_f64 2)
     \<noteq> RECHARGE_GROWTH_f64 \<and>
   calculateDrainMultiplier_f64 4 - calculateDrainMultiplier_f64 3
     = 1801439850948199 / 2251799813685248 \<and>
   calculateDrainMultiplier_f64 4 - calculateDrainMultiplier_f64 3 \<noteq> 0.80 \<and>
   sub64 (calculateDrainMultiplier_f64 4) (calculateDrainMultiplier_f64 3)
     \<noteq> DRAIN_GROWTH_f64"
  by (simp add: calculateRechargeMultiplier_f64_def calculateDrainMultiplier_f64_def
      add64_def sub64_def mul64_def DRAIN_GROWTH_f64_value RECHARGE_GROWTH_f64_value fl_values)

text \<open>
  C9, amended: both multipliers equal \<open>1\<close> at level 1. For every level \<open>L \<ge> 1\<close> the drain
  multiplier is \<open>1 + (L - 1) \<times> 0.80\<close> and the recharge multiplier is
  \<open>1 + (L - 1) \<times> 0.30\<close>, each up to a rounding error of at most \<open>L / 2\<^sup>5\<^sup>1\<close>; consecutive
  levels differ by \<open>0.80\<close> and \<open>0.30\<close> up to an error of at most \<open>L / 2\<^sup>4\<^sup>9\<close>; and for
  every binary64 level \<open>L > 1\<close> the drain multiplier is strictly greater than the recharge
  multiplier.
\<close>

theorem multipliers_binary64:
  assumes "1 \<le> L"
  shows "calculateDrainMultiplier_f64 1 = 1 \<and>
         calculateRechargeMultiplier_f64 1 = 1 \<and>
         \<bar>calculateDrainMultiplier_f64 L - (1 + (L - 1) * 0.80)\<bar> \<le> L / 2 ^ 51 \<and>
         \<bar>calculateRechargeMultiplier_f64 L - (1 + (L - 1) * 0.30)\<bar> \<le> L / 2 ^ 51 \<and>
         \<bar>calculateDrainMultiplier_f64 (L + 1) - calculateDrainMultiplier_f64 L - 0.80\<bar>
           \<le> L / 2 ^ 49 \<and>
         \<bar>calculateRechargeMultiplier_f64 (L + 1) - calculateRechargeMultiplier_f64 L - 0.30\<bar>
           \<le> L / 2 ^ 49 \<and>
         (is_f64 L \<and> 1 < L \<longrightarrow>
            calculateRechargeMultiplier_f64 L < calculateDrainMultiplier_f64 L)"
proof -
  have c: "(0.80::real) = 4 / 5" "(0.30::real) = 3 / 10"
    by simp_all
  show ?thesis
    unfolding c
    using drain_one recharge_one drain_formula [OF assms] recharge_formula [OF assms]
      drain_step [OF assms] recharge_step [OF assms] drain_gt_recharge [of L]
    by blast
qed

theorem multipliers_binary64_witness:
  "(1::real) \<le> 2 \<and> is_f64 2 \<and> (1::real) < 2 \<and>
   calculateDrainMultiplier_f64 2 = 8106479329266893 / 4503599627370496 \<and>
   calculateRechargeMultiplier_f64 2 = 5854679515581645 / 4503599627370496 \<and>
   calculateRechargeMultiplier_f64 2 < calculateDrainMultiplier_f64 2"
proof -
  have h: "(1::real) \<le> 2" by simp
  have k: "(1::real) < 2" by simp
  have d: "calculateDrainMultiplier_f64 2 = 8106479329266893 / 4503599627370496"
    by (simp add: calculateDrainMultiplier_f64_def add64_def sub64_def mul64_def
        DRAIN_GROWTH_f64_value fl_values)
  have r: "calculateRechargeMultiplier_f64 2 = 5854679515581645 / 4503599627370496"
    by (simp add: calculateRechargeMultiplier_f64_def add64_def sub64_def mul64_def
        RECHARGE_GROWTH_f64_value fl_values)
  from multipliers_binary64 [OF h] is_f64_2 k
  have "calculateRechargeMultiplier_f64 2 < calculateDrainMultiplier_f64 2"
    by blast
  with h k is_f64_2 d r show ?thesis
    by blast
qed

text \<open>
  C10. \<open>createInitialState\<close> is the state with the unicorn at \<open>(15, 25)\<close>, all four needs at
  100, level 1, level time 30, no status, \<open>eaten\<close> false and the monster at
  \<open>{x: -20, y: 50, chomp: false}\<close>; it is not terminal: neither \<open>checkGameOver\<close> on its
  needs nor \<open>checkLevelComplete\<close> on its level time holds.
\<close>

theorem createInitialState_fields:
  "x createInitialState = 15 \<and>
   y createInitialState = 25 \<and>
   needs createInitialState = \<lparr>hunger = 100, thirst = 100, energy = 100, fun = 100\<rparr> \<and>
   level createInitialState = 1 \<and>
   levelTime createInitialState = 30 \<and>
   status createInitialState = None \<and>
   eaten createInitialState = False \<and>
   monster createInitialState = \<lparr>MonsterState.x = - 20, MonsterState.y = 50, chomp = False\<rparr> \<and>
   \<not> checkGameOver (needs createInitialState) \<and>
   \<not> checkLevelComplete (levelTime createInitialState)"
  by (simp add: createInitialState_def LEVEL_TIME_def checkGameOver_def Object_values_def
      checkLevelComplete_def)

end
